theory Spec2Isabelle
  imports Main
begin

section \<open>TaskTrackr: the task store and the reminder check of tasktrackr.py\<close>

text \<open>
  The development embeds the classes \<^verbatim>\<open>Task\<close> and \<^verbatim>\<open>TaskManager\<close> of
  \<^verbatim>\<open>tasktrackr.py\<close>. Python is dynamically typed, and the records read back from
  \<^verbatim>\<open>tasks.json\<close> may hold any JSON value in any field, so the values that reach
  \<^verbatim>\<open>Task.__init__\<close> and \<^verbatim>\<open>Task.from_dict\<close> are modelled as a datatype of
  Python values, and every exception these methods can raise on such a value is a
  branch of the model.

  Conventions of the model:
  \<^item> a Python \<^verbatim>\<open>str\<close> is a \<open>string\<close>; HOL characters are 8 bits wide, so the
    model covers the code points 0 to 255, and \<open>isspace\<close> and \<open>lower\<close> below are
    Python's \<^verbatim>\<open>str.isspace\<close> and \<^verbatim>\<open>str.lower\<close> on that range;
  \<^item> JSON numbers are the integers (a Python \<^verbatim>\<open>float\<close> is inspected by the code
    exactly where an \<^verbatim>\<open>int\<close> is: for being zero and for not being a \<^verbatim>\<open>str\<close>);
  \<^item> a \<^verbatim>\<open>dict\<close> is an association list, looked up with \<open>map_of\<close>, so the first
    entry of a key is the one that counts; \<^verbatim>\<open>to_dict\<close> writes every key once;
  \<^item> a \<^verbatim>\<open>datetime\<close> is naive or carries a UTC offset (in whole minutes): the
    program creates naive ones only, but \<^verbatim>\<open>datetime.fromisoformat\<close> returns an
    offset-aware one for a string that ends in an offset;
  \<^item> what lies outside the program is a parameter of the model, the record
    \<open>platform\<close>: the library functions \<^verbatim>\<open>datetime.isoformat\<close> and
    \<^verbatim>\<open>datetime.fromisoformat\<close>, and what becomes of a write of a value to
    \<^verbatim>\<open>tasks.json\<close> (it succeeds, the file cannot be opened, or the write breaks
    off after the file was opened and truncated), and whether a line of a reminder can
    be printed; a string that no encoding covers, which the 8-bit strings of the model
    do not hold, shows in these two ways;
  \<^item> the text layer of \<^verbatim>\<open>json.dump\<close> and \<^verbatim>\<open>json.load\<close> is not modelled: the
    file \<^verbatim>\<open>tasks.json\<close> holds text that \<^verbatim>\<open>json.load\<close> rejects with
    \<^verbatim>\<open>JSONDecodeError\<close>, or content on which opening or reading raises another
    exception, or the value \<^verbatim>\<open>json.load\<close> returns for it;
  \<^item> \<^verbatim>\<open>print\<close> appends a message to the field \<open>stdout\<close> of the state.
\<close>

subsection \<open>Python values, exceptions and strings\<close>

datatype json =
    JNull
  | JBool bool
  | JInt int
  | JStr string
  | JArr "json list"
  | JObj "(string \<times> json) list"

datatype py_error =
    KeyError string
  | ValueError
  | TypeError
  | AttributeError
  | UnicodeDecodeError
  | UnicodeEncodeError
  | RecursionError
  | OSError

text \<open>Truth value testing: \<^verbatim>\<open>if v\<close>, \<^verbatim>\<open>not v\<close>, \<^verbatim>\<open>bool(v)\<close>.\<close>

fun truthy :: "json \<Rightarrow> bool" where
  "truthy JNull = False"
| "truthy (JBool b) = b"
| "truthy (JInt n) = (n \<noteq> 0)"
| "truthy (JStr s) = (s \<noteq> [])"
| "truthy (JArr xs) = (xs \<noteq> [])"
| "truthy (JObj kvs) = (kvs \<noteq> [])"

text \<open>\<^verbatim>\<open>data.get(key, default)\<close> on a dict.\<close>

definition dict_get :: "(string \<times> json) list \<Rightarrow> string \<Rightarrow> json \<Rightarrow> json" where
  "dict_get kvs k d = (case map_of kvs k of None \<Rightarrow> d | Some v \<Rightarrow> v)"

text \<open>\<^verbatim>\<open>data[key]\<close> on a dict: \<^verbatim>\<open>KeyError\<close> when the key is missing.\<close>

definition dict_item :: "(string \<times> json) list \<Rightarrow> string \<Rightarrow> py_error + json" where
  "dict_item kvs k = (case map_of kvs k of None \<Rightarrow> Inl (KeyError k) | Some v \<Rightarrow> Inr v)"

definition isspace :: "char \<Rightarrow> bool" where
  "isspace c = (of_char c \<in> set [9, 10, 11, 12, 13, 28, 29, 30, 31, 32, 133, 160 :: nat])"

text \<open>\<^verbatim>\<open>s.strip()\<close>: leading and trailing whitespace removed.\<close>

definition strip :: "string \<Rightarrow> string" where
  "strip s = rev (dropWhile isspace (rev (dropWhile isspace s)))"

definition lower_char :: "char \<Rightarrow> char" where
  "lower_char c =
     (let n = (of_char c :: nat)
      in if (65 \<le> n \<and> n \<le> 90) \<or> (192 \<le> n \<and> n \<le> 222 \<and> n \<noteq> 215)
         then char_of (n + 32) else c)"

definition lower :: "string \<Rightarrow> string" where
  "lower s = map lower_char s"

subsection \<open>Timestamps\<close>

text \<open>\<open>utcoffset d = None\<close>: the datetime is naive; otherwise its offset in minutes.\<close>

record datetime =
  year :: nat
  month :: nat
  day :: nat
  hour :: nat
  minute :: nat
  second :: nat
  microsecond :: nat
  utcoffset :: "int option"

definition dt_key :: "datetime \<Rightarrow> nat list" where
  "dt_key d = [year d, month d, day d, hour d, minute d, second d, microsecond d]"

fun lex_le :: "nat list \<Rightarrow> nat list \<Rightarrow> bool" where
  "lex_le [] ys = True"
| "lex_le (x # xs) [] = False"
| "lex_le (x # xs) (y # ys) = (x < y \<or> (x = y \<and> lex_le xs ys))"

text \<open>\<^verbatim>\<open>a <= b\<close> on two naive datetimes: the fields compared in order.\<close>

definition dt_le :: "datetime \<Rightarrow> datetime \<Rightarrow> bool" where
  "dt_le a b = lex_le (dt_key a) (dt_key b)"

definition days_in_month :: "nat \<Rightarrow> nat \<Rightarrow> nat" where
  "days_in_month y m =
     (if m = 2 then (if y mod 4 = 0 \<and> (y mod 100 \<noteq> 0 \<or> y mod 400 = 0) then 29 else 28)
      else if m \<in> set [4, 6, 9, 11] then 30 else 31)"

text \<open>
  The instant of an offset-aware datetime, in microseconds of UTC counted from the
  day before 1 January of the year 1, as \<^verbatim>\<open>datetime\<close> computes it (day number of
  the date, then the time, less the offset).
\<close>

definition day_number :: "datetime \<Rightarrow> int" where
  "day_number d =
     (let p = int (year d) - 1
      in 365 * p + p div 4 - p div 100 + p div 400
         + int (sum_list (map (days_in_month (year d)) [1 ..< month d])) + int (day d))"

definition utc_micros :: "datetime \<Rightarrow> int \<Rightarrow> int" where
  "utc_micros d off =
     (((day_number d * 24 + int (hour d)) * 60 + int (minute d) - off) * 60 + int (second d))
       * 1000000 + int (microsecond d)"

text \<open>
  \<^verbatim>\<open>a <= b\<close> on any two datetimes: an offset-naive and an offset-aware datetime
  cannot be compared (\<^verbatim>\<open>TypeError\<close>).
\<close>

definition py_le :: "datetime \<Rightarrow> datetime \<Rightarrow> py_error + bool" where
  "py_le a b =
     (case (utcoffset a, utcoffset b) of
        (None, None) \<Rightarrow> Inr (dt_le a b)
      | (Some x, Some y) \<Rightarrow> Inr (utc_micros a x \<le> utc_micros b y)
      | _ \<Rightarrow> Inl TypeError)"

text \<open>
  What a write of the value \<open>v\<close> to \<^verbatim>\<open>tasks.json\<close> by \<^verbatim>\<open>save_tasks\<close> comes to:
  \<open>Written\<close>, the file holds \<open>v\<close>; \<open>OpenFails e\<close>, \<^verbatim>\<open>open\<close> raises \<open>e\<close> (a
  file that may not be written) and the file is as before; \<open>DumpFails e p\<close>,
  \<^verbatim>\<open>json.dump\<close> raises \<open>e\<close> after \<^verbatim>\<open>open\<close> has truncated the file (a string that
  cannot be encoded as UTF-8, a full disk) and the file holds the text \<open>p\<close> written
  so far, the beginning of an array, which is not JSON.
\<close>

datatype write_outcome =
    Written
  | OpenFails py_error
  | DumpFails py_error string

text \<open>
  What the program prints: its error messages, and the lines of a reminder (the
  title, the description, the due date of a task that has one, the priority).
\<close>

datatype message =
    ErrorLoadingTask py_error
  | InvalidJSON
  | ErrorLoadingTasks py_error
  | ErrorSavingTasks py_error
  | ErrorCheckingReminders py_error
  | ReminderLine string
  | DescriptionLine string
  | DueDateLine datetime
  | PriorityLine string

text \<open>
  The platform: the two library functions the code calls on timestamps, the outcome of
  a write, and the exception, if any, that \<^verbatim>\<open>print\<close> raises on a line of a reminder
  (these lines hold text of the user, which the encoding of the console may not
  cover; the error messages hold text of the program). \<open>fromisoformat L s = None\<close>
  stands for the \<^verbatim>\<open>ValueError\<close> that \<^verbatim>\<open>datetime.fromisoformat\<close> raises on a string
  it cannot read.
\<close>

record platform =
  isoformat :: "datetime \<Rightarrow> string"
  fromisoformat :: "string \<Rightarrow> datetime option"
  write_file :: "json \<Rightarrow> write_outcome"
  print_error :: "message \<Rightarrow> py_error option"

text \<open>\<^verbatim>\<open>datetime.fromisoformat(v)\<close> on any value: a \<^verbatim>\<open>TypeError\<close> unless \<open>v\<close> is a string.\<close>

definition py_fromisoformat :: "platform \<Rightarrow> json \<Rightarrow> py_error + datetime" where
  "py_fromisoformat L v =
     (case v of
        JStr s \<Rightarrow> (case fromisoformat L s of None \<Rightarrow> Inl ValueError | Some d \<Rightarrow> Inr d)
      | _ \<Rightarrow> Inl TypeError)"

subsection \<open>class Task\<close>

text \<open>
  The field \<open>completed\<close> holds a Python value: \<^verbatim>\<open>from_dict\<close> stores whatever the
  record has under \<^verbatim>\<open>"completed"\<close>, and the code only ever tests its truth value.
\<close>

record task =
  title :: string
  description :: string
  due_date :: "datetime option"
  priority :: string
  reminder :: bool
  reminder_time :: "datetime option"
  completed :: json
  created_at :: datetime

definition is_completed :: "task \<Rightarrow> bool" where
  "is_completed t = truthy (completed t)"

text \<open>
  \<^verbatim>\<open>Task.__init__(title, description, due_date, priority, reminder, reminder_time)\<close>;
  \<open>now\<close> is the value of \<^verbatim>\<open>datetime.now()\<close>. The method \<^verbatim>\<open>strip\<close> or
  \<^verbatim>\<open>lower\<close> of a value that is not a string does not exist: \<^verbatim>\<open>AttributeError\<close>.
\<close>

definition init_priority :: "json \<Rightarrow> py_error + string" where
  "init_priority p =
     (if truthy p then
        (case p of
           JStr s \<Rightarrow> Inr (if lower s \<in> set [''low'', ''medium'', ''high''] then lower s else ''medium'')
         | _ \<Rightarrow> Inl AttributeError)
      else Inr ''medium'')"

definition init_task ::
  "json \<Rightarrow> json \<Rightarrow> datetime option \<Rightarrow> json \<Rightarrow> json \<Rightarrow> datetime option \<Rightarrow> datetime
     \<Rightarrow> py_error + task" where
  "init_task ti de dd pr re rt now =
     (if \<not> truthy ti then Inl ValueError
      else case ti of
        JStr t \<Rightarrow>
          (if strip t = [] then Inl ValueError
           else case de of
             JStr d \<Rightarrow>
               (case init_priority pr of
                  Inl e \<Rightarrow> Inl e
                | Inr p \<Rightarrow>
                    Inr \<lparr>title = strip t, description = strip d, due_date = dd, priority = p,
                         reminder = truthy re, reminder_time = rt, completed = JBool False,
                         created_at = now\<rparr>)
           | _ \<Rightarrow> Inl AttributeError)
      | _ \<Rightarrow> Inl AttributeError)"

text \<open>\<^verbatim>\<open>d.isoformat() if d else None\<close>; a datetime object is always true.\<close>

definition iso_or_null :: "platform \<Rightarrow> datetime option \<Rightarrow> json" where
  "iso_or_null L d = (case d of None \<Rightarrow> JNull | Some x \<Rightarrow> JStr (isoformat L x))"

definition to_dict :: "platform \<Rightarrow> task \<Rightarrow> json" where
  "to_dict L t =
     JObj [(''title'', JStr (title t)),
           (''description'', JStr (description t)),
           (''due_date'', iso_or_null L (due_date t)),
           (''priority'', JStr (priority t)),
           (''reminder'', JBool (reminder t)),
           (''reminder_time'', iso_or_null L (reminder_time t)),
           (''completed'', completed t),
           (''created_at'', JStr (isoformat L (created_at t)))]"

text \<open>
  \<^verbatim>\<open>if data.get(key): task.field = datetime.fromisoformat(data[key])\<close>, for
  \<^verbatim>\<open>due_date\<close> and \<^verbatim>\<open>reminder_time\<close>; \<open>old\<close> is the value the field has.
\<close>

definition opt_date ::
  "platform \<Rightarrow> (string \<times> json) list \<Rightarrow> string \<Rightarrow> datetime option
     \<Rightarrow> py_error + datetime option" where
  "opt_date L kvs k old =
     (if truthy (dict_get kvs k JNull) then
        (case py_fromisoformat L (dict_get kvs k JNull) of
           Inl e \<Rightarrow> Inl e
         | Inr d \<Rightarrow> Inr (Some d))
      else Inr old)"

text \<open>
  The body of the \<^verbatim>\<open>try\<close> of \<^verbatim>\<open>Task.from_dict\<close>, statement by statement.
  Subscripting a value that is not a dict with a string raises \<^verbatim>\<open>TypeError\<close>.
\<close>

definition from_dict_try :: "platform \<Rightarrow> datetime \<Rightarrow> json \<Rightarrow> py_error + task" where
  "from_dict_try L now data =
     (case data of
        JObj kvs \<Rightarrow>
          (case dict_item kvs ''title'' of
             Inl e \<Rightarrow> Inl e
           | Inr ti \<Rightarrow>
          (case init_task ti (dict_get kvs ''description'' (JStr ''''))
                  None (dict_get kvs ''priority'' (JStr ''medium''))
                  (dict_get kvs ''reminder'' (JBool False)) None now of
             Inl e \<Rightarrow> Inl e
           | Inr t0 \<Rightarrow>
          (case opt_date L kvs ''due_date'' (due_date t0) of
             Inl e \<Rightarrow> Inl e
           | Inr dd \<Rightarrow>
          (case opt_date L kvs ''reminder_time'' (reminder_time t0) of
             Inl e \<Rightarrow> Inl e
           | Inr rt \<Rightarrow>
          (case dict_item kvs ''created_at'' of
             Inl e \<Rightarrow> Inl e
           | Inr c \<Rightarrow>
          (case py_fromisoformat L c of
             Inl e \<Rightarrow> Inl e
           | Inr ca \<Rightarrow>
               Inr (t0\<lparr>due_date := dd, reminder_time := rt,
                        completed := dict_get kvs ''completed'' (JBool False),
                        created_at := ca\<rparr>)))))))
      | _ \<Rightarrow> Inl TypeError)"

text \<open>
  \<^verbatim>\<open>Task.from_dict\<close>: the messages printed and the outcome. \<open>Inr (Some t)\<close> is the
  task returned, \<open>Inr None\<close> the \<^verbatim>\<open>None\<close> returned by the handler of
  \<^verbatim>\<open>except (KeyError, ValueError)\<close>, and \<open>Inl e\<close> an exception that the handler does
  not catch and that reaches the caller.
\<close>

fun caught :: "py_error \<Rightarrow> bool" where
  "caught (KeyError k) = True"
| "caught ValueError = True"
| "caught TypeError = False"
| "caught AttributeError = False"
| "caught UnicodeDecodeError = True"
| "caught UnicodeEncodeError = True"
| "caught RecursionError = False"
| "caught OSError = False"

definition from_dict ::
  "platform \<Rightarrow> datetime \<Rightarrow> json \<Rightarrow> message list \<times> (py_error + task option)" where
  "from_dict L now data =
     (case from_dict_try L now data of
        Inr t \<Rightarrow> ([], Inr (Some t))
      | Inl e \<Rightarrow> if caught e then ([ErrorLoadingTask e], Inr None) else ([], Inl e))"

subsection \<open>class TaskManager\<close>

text \<open>
  What \<^verbatim>\<open>tasks.json\<close> holds: \<open>Garbage g\<close>, text that \<^verbatim>\<open>json.load\<close> rejects with
  \<^verbatim>\<open>JSONDecodeError\<close>; \<open>Unreadable e b\<close>, content on which \<^verbatim>\<open>open\<close> or
  \<^verbatim>\<open>json.load\<close> raises the other exception \<open>e\<close> (bytes that are not UTF-8, a
  file that may not be read, a number or a nesting beyond the limits of the parser);
  \<open>Json v\<close>, the text of the value \<open>v\<close>.
\<close>

datatype file_content = Garbage string | Unreadable py_error string | Json json

record task_manager =
  tasks :: "task list"
  tasks_json :: "file_content option"
  running :: bool
  stdout :: "message list"

definition save_tasks :: "platform \<Rightarrow> task_manager \<Rightarrow> task_manager" where
  "save_tasks L s =
     (let data = JArr (map (to_dict L) (tasks s))
      in case write_file L data of
           Written \<Rightarrow> s\<lparr>tasks_json := Some (Json data)\<rparr>
         | OpenFails e \<Rightarrow> s\<lparr>stdout := stdout s @ [ErrorSavingTasks e]\<rparr>
         | DumpFails e p \<Rightarrow>
             s\<lparr>tasks_json := Some (Garbage p), stdout := stdout s @ [ErrorSavingTasks e]\<rparr>)"

text \<open>
  \<^verbatim>\<open>for task_data in data\<close>: a list gives its elements, a dict its keys, a string
  its characters, and any other value is not iterable.
\<close>

fun py_iter :: "json \<Rightarrow> py_error + json list" where
  "py_iter (JArr xs) = Inr xs"
| "py_iter (JObj kvs) = Inr (map (\<lambda>kv. JStr (fst kv)) kvs)"
| "py_iter (JStr s) = Inr (map (\<lambda>c. JStr [c]) s)"
| "py_iter v = Inl TypeError"

text \<open>
  The loop of \<^verbatim>\<open>load_tasks\<close>; \<open>acc\<close> is \<^verbatim>\<open>self.tasks\<close> and \<open>out\<close> the messages
  printed so far. An exception of \<^verbatim>\<open>from_dict\<close> leaves the loop.
\<close>

fun load_loop ::
  "platform \<Rightarrow> datetime \<Rightarrow> json list \<Rightarrow> task list \<Rightarrow> message list
     \<Rightarrow> message list \<times> (py_error + task list)" where
  "load_loop L now [] acc out = (out, Inr acc)"
| "load_loop L now (d # ds) acc out =
     (case from_dict L now d of
        (ms, Inl e) \<Rightarrow> (out @ ms, Inl e)
      | (ms, Inr None) \<Rightarrow> load_loop L now ds acc (out @ ms)
      | (ms, Inr (Some t)) \<Rightarrow> load_loop L now ds (acc @ [t]) (out @ ms))"

definition load_tasks :: "platform \<Rightarrow> datetime \<Rightarrow> task_manager \<Rightarrow> task_manager" where
  "load_tasks L now s =
     (case tasks_json s of
        None \<Rightarrow> s
      | Some (Garbage g) \<Rightarrow> save_tasks L (s\<lparr>stdout := stdout s @ [InvalidJSON]\<rparr>)
      | Some (Unreadable e b) \<Rightarrow> s\<lparr>tasks := [], stdout := stdout s @ [ErrorLoadingTasks e]\<rparr>
      | Some (Json data) \<Rightarrow>
          (case py_iter data of
             Inl e \<Rightarrow> s\<lparr>tasks := [], stdout := stdout s @ [ErrorLoadingTasks e]\<rparr>
           | Inr items \<Rightarrow>
               (case load_loop L now items [] (stdout s) of
                  (out, Inl e) \<Rightarrow> s\<lparr>tasks := [], stdout := out @ [ErrorLoadingTasks e]\<rparr>
                | (out, Inr ts) \<Rightarrow> s\<lparr>tasks := ts, stdout := out\<rparr>)))"

text \<open>
  \<^verbatim>\<open>TaskManager.__init__\<close>, given what the disk holds under \<^verbatim>\<open>tasks.json\<close>
  (\<open>None\<close>: no such file).
\<close>

definition init_manager ::
  "platform \<Rightarrow> datetime \<Rightarrow> file_content option \<Rightarrow> task_manager" where
  "init_manager L now f =
     (load_tasks L now \<lparr>tasks = [], tasks_json = f, running = False, stdout = []\<rparr>)
       \<lparr>running := True\<rparr>"

definition add_task :: "platform \<Rightarrow> task_manager \<Rightarrow> task \<Rightarrow> task_manager \<times> bool" where
  "add_task L s t = (save_tasks L (s\<lparr>tasks := tasks s @ [t]\<rparr>), True)"

text \<open>\<^verbatim>\<open>del xs[i]\<close> for an index in range.\<close>

definition del_at :: "nat \<Rightarrow> 'a list \<Rightarrow> 'a list" where
  "del_at i xs = take i xs @ drop (Suc i) xs"

definition remove_task :: "platform \<Rightarrow> task_manager \<Rightarrow> int \<Rightarrow> task_manager \<times> bool" where
  "remove_task L s index =
     (if 0 \<le> index \<and> index < int (length (tasks s))
      then (save_tasks L (s\<lparr>tasks := del_at (nat index) (tasks s)\<rparr>), True)
      else (s, False))"

definition toggle :: "task \<Rightarrow> task" where
  "toggle t = t\<lparr>completed := JBool (\<not> truthy (completed t))\<rparr>"

definition toggle_task_completion ::
  "platform \<Rightarrow> task_manager \<Rightarrow> int \<Rightarrow> task_manager \<times> bool" where
  "toggle_task_completion L s index =
     (if 0 \<le> index \<and> index < int (length (tasks s))
      then (save_tasks L (s\<lparr>tasks := (tasks s)[nat index := toggle (tasks s ! nat index)]\<rparr>), True)
      else (s, False))"

definition get_tasks :: "task_manager \<Rightarrow> bool \<Rightarrow> task list" where
  "get_tasks s show_completed =
     (if show_completed then tasks s else filter (\<lambda>t. \<not> truthy (completed t)) (tasks s))"

text \<open>
  The test of \<^verbatim>\<open>check_reminders\<close> on one task: the comparison is reached only
  when the three tests before it pass, and may raise.
\<close>

definition reminder_due :: "datetime \<Rightarrow> task \<Rightarrow> py_error + bool" where
  "reminder_due now t =
     (if reminder t then
        (case reminder_time t of
           None \<Rightarrow> Inr False
         | Some rt \<Rightarrow> if \<not> truthy (completed t) then py_le rt now else Inr False)
      else Inr False)"

text \<open>The lines printed for a task that passes the test, one \<^verbatim>\<open>print\<close> each.\<close>

definition reminder_lines :: "task \<Rightarrow> message list" where
  "reminder_lines t =
     [ReminderLine (title t), DescriptionLine (description t)] @
     (case due_date t of None \<Rightarrow> [] | Some d \<Rightarrow> [DueDateLine d]) @
     [PriorityLine (priority t)]"

text \<open>Printing lines one by one: the lines printed, and the exception that stopped it.\<close>

fun print_lines :: "platform \<Rightarrow> message list \<Rightarrow> message list \<times> py_error option" where
  "print_lines L [] = ([], None)"
| "print_lines L (m # ms) =
     (case print_error L m of
        Some e \<Rightarrow> ([], Some e)
      | None \<Rightarrow> (m # fst (print_lines L ms), snd (print_lines L ms)))"

text \<open>
  The loop of \<^verbatim>\<open>check_reminders\<close> over the store: the tasks whose reminder was
  printed, the lines printed, and the exception that ended the loop, if any.
\<close>

fun notify ::
  "platform \<Rightarrow> datetime \<Rightarrow> task list \<Rightarrow> task list \<times> message list \<times> py_error option" where
  "notify L now [] = ([], [], None)"
| "notify L now (t # ts) =
     (case reminder_due now t of
        Inl e \<Rightarrow> ([], [], Some e)
      | Inr due \<Rightarrow>
          (if due then
             (case print_lines L (reminder_lines t) of
                (ls, Some e) \<Rightarrow> ([], ls, Some e)
              | (ls, None) \<Rightarrow>
                  (case notify L now ts of (ns, out, e) \<Rightarrow> (t # ns, ls @ out, e)))
           else notify L now ts))"



definition check_reminders :: "platform \<Rightarrow> datetime \<Rightarrow> task_manager \<Rightarrow> task_manager" where
  "check_reminders L now s =
     (if \<not> running s then s
      else case notify L now (tasks s) of
             (ns, out, None) \<Rightarrow> s\<lparr>stdout := stdout s @ out\<rparr>
           | (ns, out, Some e) \<Rightarrow>
               s\<lparr>stdout := stdout s @ out @ [ErrorCheckingReminders e]\<rparr>)"

definition stop :: "platform \<Rightarrow> task_manager \<Rightarrow> task_manager" where
  "stop L s = save_tasks L (s\<lparr>running := False\<rparr>)"

subsection \<open>Platforms for the examples\<close>

text \<open>
  \<open>iso8601\<close> is an instance of \<open>platform\<close>: \<open>iso_print\<close> writes a datetime the
  way \<^verbatim>\<open>datetime.isoformat\<close> does (\<^verbatim>\<open>YYYY-MM-DDTHH:MM:SS\<close>, followed by
  \<^verbatim>\<open>.ffffff\<close> when the microseconds are not zero and by the offset \<^verbatim>\<open>+HH:MM\<close> or
  \<^verbatim>\<open>-HH:MM\<close> of an offset-aware one), \<open>iso_read\<close> reads exactly that format, and
  every write and every \<^verbatim>\<open>print\<close> succeeds. Python's own \<^verbatim>\<open>fromisoformat\<close> reads more formats; the
  theorems below hold for every platform and use this one only at concrete inputs.
  \<open>full_disk\<close> differs from it in the writes: the file is opened, and so truncated,
  and nothing can be written to it.
\<close>

definition digit_of :: "nat \<Rightarrow> char" where
  "digit_of n = ''0123456789'' ! (n mod 10)"

fun zpad :: "nat \<Rightarrow> nat \<Rightarrow> string" where
  "zpad 0 n = []"
| "zpad (Suc k) n = zpad k (n div 10) @ [digit_of n]"

definition iso_print :: "datetime \<Rightarrow> string" where
  "iso_print d =
     zpad 4 (year d) @ ''-'' @ zpad 2 (month d) @ ''-'' @ zpad 2 (day d) @ ''T'' @
     zpad 2 (hour d) @ '':'' @ zpad 2 (minute d) @ '':'' @ zpad 2 (second d) @
     (if microsecond d = 0 then [] else ''.'' @ zpad 6 (microsecond d)) @
     (case utcoffset d of
        None \<Rightarrow> []
      | Some m \<Rightarrow>
          (if m < 0 then ''-'' else ''+'') @ zpad 2 (nat \<bar>m\<bar> div 60) @ '':'' @
          zpad 2 (nat \<bar>m\<bar> mod 60))"

definition digit_val :: "char \<Rightarrow> nat option" where
  "digit_val c =
     (let n = (of_char c :: nat) in if 48 \<le> n \<and> n \<le> 57 then Some (n - 48) else None)"

fun read_num :: "string \<Rightarrow> nat \<Rightarrow> nat option" where
  "read_num [] a = Some a"
| "read_num (c # cs) a =
     (case digit_val c of None \<Rightarrow> None | Some v \<Rightarrow> read_num cs (10 * a + v))"

definition field_at :: "string \<Rightarrow> nat \<Rightarrow> nat \<Rightarrow> nat option" where
  "field_at s i n = read_num (take n (drop i s)) 0"

definition iso_read_naive :: "string \<Rightarrow> datetime option" where
  "iso_read_naive s =
     (if (length s = 19 \<or> (length s = 26 \<and> s ! 19 = CHR ''.'')) \<and>
         s ! 4 = CHR ''-'' \<and> s ! 7 = CHR ''-'' \<and> s ! 10 = CHR ''T'' \<and>
         s ! 13 = CHR '':'' \<and> s ! 16 = CHR '':''
      then
        (case (field_at s 0 4, field_at s 5 2, field_at s 8 2, field_at s 11 2,
               field_at s 14 2, field_at s 17 2, field_at s 20 6) of
           (Some y, Some m, Some d, Some h, Some mi, Some sec, Some us) \<Rightarrow>
             (if 1 \<le> y \<and> 1 \<le> m \<and> m \<le> 12 \<and> 1 \<le> d \<and> d \<le> days_in_month y m \<and>
                 h < 24 \<and> mi < 60 \<and> sec < 60
              then Some \<lparr>year = y, month = m, day = d, hour = h, minute = mi,
                          second = sec, microsecond = us, utcoffset = None\<rparr>
              else None)
         | _ \<Rightarrow> None)
      else None)"

definition iso_read_offset :: "string \<Rightarrow> int option" where
  "iso_read_offset z =
     (if length z = 6 \<and> (z ! 0 = CHR ''+'' \<or> z ! 0 = CHR ''-'') \<and> z ! 3 = CHR '':''
      then
        (case (field_at z 1 2, field_at z 4 2) of
           (Some h, Some m) \<Rightarrow>
             (if h < 24 \<and> m < 60
              then Some ((if z ! 0 = CHR ''-'' then - 1 else 1) * int (h * 60 + m))
              else None)
         | _ \<Rightarrow> None)
      else None)"

definition iso_read :: "string \<Rightarrow> datetime option" where
  "iso_read s =
     (if length s = 25 \<or> length s = 32
      then
        (case (iso_read_naive (take (length s - 6) s), iso_read_offset (drop (length s - 6) s)) of
           (Some d, Some off) \<Rightarrow> Some (d\<lparr>utcoffset := Some off\<rparr>)
         | _ \<Rightarrow> None)
      else iso_read_naive s)"

definition iso8601 :: platform where
  "iso8601 = \<lparr>isoformat = iso_print, fromisoformat = iso_read, write_file = (\<lambda>v. Written),
               print_error = (\<lambda>m. None)\<rparr>"

definition full_disk :: platform where
  "full_disk = iso8601\<lparr>write_file := (\<lambda>v. DumpFails OSError [])\<rparr>"

subsection \<open>Notions used in the statements\<close>

text \<open>
  What \<^verbatim>\<open>Task.__init__\<close> establishes about the string fields of a task
  (lemma \<open>init_task_valid\<close>), and what no operation of the store changes.
\<close>

definition task_valid :: "task \<Rightarrow> bool" where
  "task_valid t =
     (title t \<noteq> [] \<and> strip (title t) = title t \<and>
      strip (description t) = description t \<and>
      priority t \<in> set [''low'', ''medium'', ''high''])"

text \<open>
  The library reads back what it wrote for the timestamp \<open>d\<close>, and what it wrote
  is not the empty string.
\<close>

definition iso_roundtrip :: "platform \<Rightarrow> datetime \<Rightarrow> bool" where
  "iso_roundtrip L d = (isoformat L d \<noteq> [] \<and> fromisoformat L (isoformat L d) = Some d)"

definition dates_roundtrip :: "platform \<Rightarrow> task \<Rightarrow> bool" where
  "dates_roundtrip L t =
     (iso_roundtrip L (created_at t) \<and>
      (case due_date t of None \<Rightarrow> True | Some d \<Rightarrow> iso_roundtrip L d) \<and>
      (case reminder_time t of None \<Rightarrow> True | Some d \<Rightarrow> iso_roundtrip L d))"

text \<open>The title of a task is not empty after trimming; every task of the store is so.\<close>

definition title_ok :: "task \<Rightarrow> bool" where
  "title_ok t = (strip (title t) \<noteq> [])"

definition titles_ok :: "task_manager \<Rightarrow> bool" where
  "titles_ok s = (\<forall>t \<in> set (tasks s). title_ok t)"



text \<open>The record \<open>kvs\<close> with the field \<open>k\<close> missing.\<close>

definition without :: "string \<Rightarrow> (string \<times> json) list \<Rightarrow> (string \<times> json) list" where
  "without k kvs = filter (\<lambda>kv. fst kv \<noteq> k) kvs"

subsection \<open>Sample data\<close>

definition noon :: datetime where
  "noon = \<lparr>year = 2024, month = 5, day = 17, hour = 12, minute = 0, second = 0,
           microsecond = 0, utcoffset = None\<rparr>"

definition later :: datetime where
  "later = \<lparr>year = 2024, month = 6, day = 1, hour = 8, minute = 30, second = 15,
            microsecond = 250000, utcoffset = None\<rparr>"

definition rec_milk :: json where
  "rec_milk =
     JObj [(''title'', JStr ''Buy milk''), (''description'', JStr ''2 litres''),
           (''due_date'', JNull), (''priority'', JStr ''high''), (''reminder'', JBool False),
           (''reminder_time'', JNull), (''completed'', JBool False),
           (''created_at'', JStr ''2024-05-17T12:00:00'')]"

definition rec_call :: json where
  "rec_call =
     JObj [(''title'', JStr ''Call Sam''), (''description'', JStr []),
           (''due_date'', JStr ''2024-06-01T08:30:15.250000''), (''priority'', JStr ''low''),
           (''reminder'', JBool True), (''reminder_time'', JStr ''2024-05-17T12:00:00''),
           (''completed'', JBool True), (''created_at'', JStr ''2024-05-17T12:00:00'')]"

text \<open>A record without \<^verbatim>\<open>created_at\<close>, and one whose description is \<^verbatim>\<open>null\<close>.\<close>

definition rec_undated :: json where
  "rec_undated = JObj [(''title'', JStr ''Water plants''), (''description'', JStr [])]"

definition rec_null_description :: json where
  "rec_null_description =
     JObj [(''title'', JStr ''Water plants''), (''description'', JNull),
           (''created_at'', JStr ''2024-05-17T12:00:00'')]"

definition task_milk :: task where
  "task_milk =
     \<lparr>title = ''Buy milk'', description = ''2 litres'', due_date = None, priority = ''high'',
      reminder = False, reminder_time = None, completed = JBool False, created_at = noon\<rparr>"

definition task_call :: task where
  "task_call =
     \<lparr>title = ''Call Sam'', description = [], due_date = Some later, priority = ''low'',
      reminder = True, reminder_time = Some noon, completed = JBool True, created_at = noon\<rparr>"





definition empty_manager :: task_manager where
  "empty_manager = \<lparr>tasks = [], tasks_json = None, running = True, stdout = []\<rparr>"

definition two_tasks :: task_manager where
  "two_tasks = fst (add_task iso8601 (fst (add_task iso8601 empty_manager task_milk)) task_call)"

section \<open>Properties\<close>

subsection \<open>Strings and the constructor\<close>

lemma dropWhile_hd_fixed: "xs = [] \<or> \<not> P (hd xs) \<Longrightarrow> dropWhile P xs = xs"
  by (cases xs) auto

lemma last_dropWhile_rev:
  assumes "dropWhile P (rev xs) \<noteq> []"
  shows "last (dropWhile P (rev xs)) = hd xs"
proof -
  have "rev xs = takeWhile P (rev xs) @ dropWhile P (rev xs)" by simp
  then have "last (rev xs) = last (dropWhile P (rev xs))"
    using assms by (metis last_appendR)
  moreover have "xs \<noteq> []" using assms by auto
  ultimately show ?thesis by (simp add: last_rev)
qed

lemma strip_ends: "strip s = [] \<or> (\<not> isspace (hd (strip s)) \<and> \<not> isspace (last (strip s)))"
proof (cases "strip s = []")
  case True
  then show ?thesis by simp
next
  case False
  define a where "a = dropWhile isspace s"
  define b where "b = dropWhile isspace (rev a)"
  have s: "strip s = rev b" by (simp add: strip_def a_def b_def)
  have b: "b \<noteq> []" using False s by simp
  then have a: "a \<noteq> []" by (auto simp: b_def)
  have "last b = hd a" using b unfolding b_def by (rule last_dropWhile_rev)
  moreover have "\<not> isspace (hd a)" using a unfolding a_def by (rule hd_dropWhile)
  moreover have "\<not> isspace (hd b)" using b unfolding b_def by (rule hd_dropWhile)
  ultimately show ?thesis using b by (simp add: s hd_rev last_rev)
qed

lemma strip_fixed:
  assumes "s = [] \<or> (\<not> isspace (hd s) \<and> \<not> isspace (last s))"
  shows "strip s = s"
proof (cases "s = []")
  case True
  then show ?thesis by (simp add: strip_def)
next
  case False
  with assms have h: "\<not> isspace (hd s)" and l: "\<not> isspace (last s)" by auto
  have "dropWhile isspace s = s" using h by (simp add: dropWhile_hd_fixed)
  moreover have "dropWhile isspace (rev s) = rev s"
    using l False by (simp add: dropWhile_hd_fixed hd_rev)
  ultimately show ?thesis by (simp add: strip_def)
qed

lemma strip_idem: "strip (strip s) = strip s"
  using strip_ends [of s] by (rule strip_fixed)

lemma init_priority_range: "init_priority p = Inr q \<Longrightarrow> q \<in> set [''low'', ''medium'', ''high'']"
  by (auto simp: init_priority_def split: if_splits json.splits)

lemma init_task_valid: "init_task ti de dd pr re rt now = Inr t \<Longrightarrow> task_valid t"
  by (auto simp: init_task_def task_valid_def strip_idem split: if_splits json.splits sum.splits dest: init_priority_range)

subsection \<open>Serialized records read back\<close>

lemma lower_valid: "p \<in> set [''low'', ''medium'', ''high''] \<Longrightarrow> lower p = p"
  by (auto simp: lower_def lower_char_def)

lemma init_priority_valid:
  "p \<in> set [''low'', ''medium'', ''high''] \<Longrightarrow> init_priority (JStr p) = Inr p"
  by (auto simp: init_priority_def lower_def lower_char_def)

lemma init_task_roundtrip:
  assumes "task_valid t"
  shows "init_task (JStr (title t)) (JStr (description t)) None (JStr (priority t))
           (JBool (reminder t)) None now =
         Inr \<lparr>title = title t, description = description t, due_date = None,
              priority = priority t, reminder = reminder t, reminder_time = None,
              completed = JBool False, created_at = now\<rparr>"
proof -
  from assms have ne: "title t \<noteq> []" by (simp add: task_valid_def)
  from assms have p: "init_priority (JStr (priority t)) = Inr (priority t)"
    by (simp add: task_valid_def init_priority_valid)
  show ?thesis using assms ne by (simp add: init_task_def task_valid_def p)
qed

lemma opt_date_to_dict:
  assumes "case d of None \<Rightarrow> True | Some x \<Rightarrow> iso_roundtrip L x" and "map_of kvs k = Some (iso_or_null L d)"
  shows "opt_date L kvs k None = Inr d"
  using assms
  by (cases d) (simp_all add: opt_date_def dict_get_def iso_or_null_def py_fromisoformat_def iso_roundtrip_def)

lemma from_dict_try_to_dict:
  assumes "task_valid t" and "dates_roundtrip L t"
  shows "from_dict_try L now (to_dict L t) = Inr t"
proof -
  let ?kvs = "[(''title'', JStr (title t)),
           (''description'', JStr (description t)),
           (''due_date'', iso_or_null L (due_date t)),
           (''priority'', JStr (priority t)),
           (''reminder'', JBool (reminder t)),
           (''reminder_time'', iso_or_null L (reminder_time t)),
           (''completed'', completed t),
           (''created_at'', JStr (isoformat L (created_at t)))]"
  have dd: "opt_date L ?kvs ''due_date'' None = Inr (due_date t)"
    using assms(2) by (intro opt_date_to_dict) (simp_all add: dates_roundtrip_def)
  have rt: "opt_date L ?kvs ''reminder_time'' None = Inr (reminder_time t)"
    using assms(2) by (intro opt_date_to_dict) (simp_all add: dates_roundtrip_def)
  have ca: "py_fromisoformat L (JStr (isoformat L (created_at t))) = Inr (created_at t)"
    using assms(2) by (simp add: dates_roundtrip_def iso_roundtrip_def py_fromisoformat_def)
  show ?thesis
    by (simp add: from_dict_try_def to_dict_def dict_item_def dict_get_def
        init_task_roundtrip [OF assms(1)] dd rt ca)
qed

lemma from_dict_to_dict:
  "task_valid t \<Longrightarrow> dates_roundtrip L t \<Longrightarrow> from_dict L now (to_dict L t) = ([], Inr (Some t))"
  by (simp add: from_dict_def from_dict_try_to_dict)

lemma load_loop_to_dict:
  "\<forall>t \<in> set ts. task_valid t \<and> dates_roundtrip L t \<Longrightarrow>
     load_loop L now (map (to_dict L) ts) acc out = (out, Inr (acc @ ts))"
  by (induction ts arbitrary: acc) (simp_all add: from_dict_to_dict)

text \<open>What \<^verbatim>\<open>save_tasks\<close> leaves alone, and what a write that succeeds leaves.\<close>

lemma tasks_save_tasks: "tasks (save_tasks L s) = tasks s"
  by (simp add: save_tasks_def Let_def split: write_outcome.splits)

lemma running_save_tasks: "running (save_tasks L s) = running s"
  by (simp add: save_tasks_def Let_def split: write_outcome.splits)

lemma save_tasks_Written:
  "write_file L (JArr (map (to_dict L) (tasks s))) = Written \<Longrightarrow>
     save_tasks L s = s\<lparr>tasks_json := Some (Json (JArr (map (to_dict L) (tasks s))))\<rparr>"
  by (simp add: save_tasks_def)

subsection \<open>Evaluation of the sample data\<close>

lemmas string_defs = strip_def isspace_def lower_def lower_char_def char_of_def
  bit_iff_odd_drop_bit drop_bit_eq_div

lemmas task_defs = init_task_def init_priority_def to_dict_def iso_or_null_def from_dict_def
  from_dict_try_def dict_item_def dict_get_def opt_date_def py_fromisoformat_def

lemma zpad_numeral: "zpad (numeral k) n = zpad (pred_numeral k) (n div 10) @ [digit_of n]"
  by (metis numeral_eq_Suc zpad.simps(2))

lemma iso_print_noon: "iso_print noon = ''2024-05-17T12:00:00''"
  by (simp add: iso_print_def digit_of_def noon_def zpad_numeral)

lemma iso_print_later: "iso_print later = ''2024-06-01T08:30:15.250000''"
  by (simp add: iso_print_def digit_of_def later_def zpad_numeral)

lemma iso_read_naive_noon: "iso_read_naive ''2024-05-17T12:00:00'' = Some noon"
  by (simp add: iso_read_naive_def field_at_def digit_val_def days_in_month_def noon_def)

lemma iso_read_noon: "iso_read ''2024-05-17T12:00:00'' = Some noon"
  by (simp add: iso_read_def iso_read_naive_noon)

lemma iso_read_later: "iso_read ''2024-06-01T08:30:15.250000'' = Some later"
  by (simp add: iso_read_def iso_read_naive_def field_at_def digit_val_def days_in_month_def
      later_def)


lemma iso8601_sel: "isoformat iso8601 = iso_print" "fromisoformat iso8601 = iso_read"
  "write_file iso8601 v = Written" "print_error iso8601 m = None"
  by (simp_all add: iso8601_def)

lemma full_disk_sel: "isoformat full_disk = iso_print" "fromisoformat full_disk = iso_read"
  "write_file full_disk v = DumpFails OSError []" "print_error full_disk m = None"
  by (simp_all add: full_disk_def iso8601_def)

lemma from_dict_rec_milk: "from_dict iso8601 now rec_milk = ([], Inr (Some task_milk))"
  by (simp add: task_defs string_defs rec_milk_def task_milk_def iso8601_sel iso_read_noon)

lemma from_dict_rec_call: "from_dict iso8601 now rec_call = ([], Inr (Some task_call))"
  by (simp add: task_defs string_defs rec_call_def task_call_def iso8601_sel iso_read_noon
      iso_read_later)

lemma from_dict_rec_undated:
  "from_dict iso8601 now rec_undated = ([ErrorLoadingTask (KeyError ''created_at'')], Inr None)"
  by (simp add: task_defs string_defs rec_undated_def)

lemma from_dict_rec_null_description:
  "from_dict iso8601 now rec_null_description = ([], Inl AttributeError)"
  by (simp add: task_defs string_defs rec_null_description_def)

lemma to_dict_task_milk: "to_dict iso8601 task_milk = rec_milk"
  by (simp add: task_defs rec_milk_def task_milk_def iso8601_sel iso_print_noon)

lemma to_dict_task_call: "to_dict iso8601 task_call = rec_call"
  by (simp add: task_defs rec_call_def task_call_def iso8601_sel iso_print_noon iso_print_later)

lemma task_valid_samples: "task_valid task_milk" "task_valid task_call"
  by (simp_all add: task_valid_def task_milk_def task_call_def string_defs)

lemma dates_roundtrip_samples: "dates_roundtrip iso8601 task_milk" "dates_roundtrip iso8601 task_call"
  by (simp_all add: dates_roundtrip_def iso_roundtrip_def task_milk_def task_call_def iso8601_sel
      iso_print_noon iso_print_later iso_read_noon iso_read_later)



lemma two_tasks_eq:
  "two_tasks = \<lparr>tasks = [task_milk, task_call],
                 tasks_json = Some (Json (JArr [rec_milk, rec_call])),
                 running = True, stdout = []\<rparr>"
  by (simp add: two_tasks_def add_task_def save_tasks_def empty_manager_def iso8601_sel
      to_dict_task_milk to_dict_task_call)

lemma tasks_two_tasks: "tasks two_tasks = [task_milk, task_call]"
  by (simp add: two_tasks_eq)

lemma tasks_json_two_tasks: "tasks_json two_tasks = Some (Json (JArr [rec_milk, rec_call]))"
  by (simp add: two_tasks_eq)


lemma stdout_two_tasks: "stdout two_tasks = []"
  by (simp add: two_tasks_eq)

lemma init_task_milk:
  "init_task (JStr ''Buy milk'') (JStr '' 2 litres'') None (JStr ''HIGH'') (JBool False) None noon
     = Inr task_milk"
  by (simp add: init_task_def init_priority_def string_defs task_milk_def)

subsection \<open>Priority of a constructed task\<close>

lemma init_priority_cases:
  "init_priority pr =
     (if truthy pr \<and> (\<forall>s. pr \<noteq> JStr s) then Inl AttributeError
      else Inr (case pr of
                  JStr s \<Rightarrow> if lower s \<in> set [''low'', ''medium'', ''high''] then lower s
                            else ''medium''
                | _ \<Rightarrow> ''medium''))"
  by (cases pr) (auto simp: init_priority_def lower_def)

lemma init_task_strings:
  "strip ti \<noteq> [] \<Longrightarrow>
     init_task (JStr ti) (JStr de) dd pr re rt now =
       (case init_priority pr of
          Inl e \<Rightarrow> Inl e
        | Inr p \<Rightarrow> Inr \<lparr>title = strip ti, description = strip de, due_date = dd, priority = p,
                         reminder = truthy re, reminder_time = rt, completed = JBool False,
                         created_at = now\<rparr>)"
  by (auto simp: init_task_def strip_def)

lemma init_task_priority_of:
  assumes "init_task ti de dd pr re rt now = Inr t"
  shows "init_priority pr = Inr (priority t)"
  using assms by (auto simp: init_task_def split: if_splits json.splits sum.splits)

text \<open>
  C7. Given a title that is not blank and a description, the constructor builds a task
  for every priority that is a string or a false value (the empty string,
  \<^verbatim>\<open>None\<close>), and the priority of that task is the string in lower case when that
  is low, medium or high, and medium otherwise; a record without a priority read by
  \<^verbatim>\<open>from_dict\<close> gets medium too. A true value that is not a string has no method
  \<^verbatim>\<open>lower\<close>: the constructor raises \<^verbatim>\<open>AttributeError\<close> and builds no task.
  So whatever the arguments, a task that the constructor builds has one of the three
  priorities, as described.
\<close>

theorem init_task_priority:
  "(strip ti \<noteq> [] \<longrightarrow>
      (\<not> truthy pr \<or> (\<exists>s. pr = JStr s) \<longrightarrow>
         (\<exists>t. init_task (JStr ti) (JStr de) dd pr re rt now = Inr t \<and>
              priority t =
                (case pr of
                   JStr s \<Rightarrow> if lower s \<in> set [''low'', ''medium'', ''high''] then lower s
                             else ''medium''
                 | _ \<Rightarrow> ''medium''))) \<and>
      (truthy pr \<and> (\<forall>s. pr \<noteq> JStr s) \<longrightarrow>
         init_task (JStr ti) (JStr de) dd pr re rt now = Inl AttributeError)) \<and>
   (init_task ti' de' dd pr re rt now = Inr t' \<longrightarrow>
      priority t' \<in> set [''low'', ''medium'', ''high''] \<and>
      priority t' =
        (case pr of
           JStr s \<Rightarrow> if lower s \<in> set [''low'', ''medium'', ''high''] then lower s
                     else ''medium''
         | _ \<Rightarrow> ''medium'')) \<and>
   (map_of kvs ''priority'' = None \<and> from_dict L now (JObj kvs) = (ms, Inr (Some t'')) \<longrightarrow>
      priority t'' = ''medium'')"
proof -
  let ?norm = "\<lambda>pr. case pr of
           JStr s \<Rightarrow> if lower s \<in> set [''low'', ''medium'', ''high''] then lower s
                     else ''medium''
         | _ \<Rightarrow> ''medium''"
  have a: "\<exists>t. init_task (JStr ti) (JStr de) dd pr re rt now = Inr t \<and> priority t = ?norm pr"
    if "strip ti \<noteq> []" and "\<not> truthy pr \<or> (\<exists>s. pr = JStr s)"
  proof -
    from that(2) have "init_priority pr = Inr (?norm pr)"
      by (subst init_priority_cases) auto
    with that(1) show ?thesis by (simp add: init_task_strings)
  qed
  have b: "init_task (JStr ti) (JStr de) dd pr re rt now = Inl AttributeError"
    if "strip ti \<noteq> []" and "truthy pr \<and> (\<forall>s. pr \<noteq> JStr s)"
  proof -
    from that(2) have "init_priority pr = Inl AttributeError"
      by (subst init_priority_cases) simp
    with that(1) show ?thesis by (simp add: init_task_strings)
  qed
  have c: "priority t' \<in> set [''low'', ''medium'', ''high''] \<and> priority t' = ?norm pr"
    if "init_task ti' de' dd pr re rt now = Inr t'"
  proof -
    from that have p: "init_priority pr = Inr (priority t')" by (rule init_task_priority_of)
    then have "priority t' \<in> set [''low'', ''medium'', ''high'']" by (rule init_priority_range)
    moreover from p have "priority t' = ?norm pr"
      by (subst (asm) init_priority_cases) (simp split: if_splits)
    ultimately show ?thesis by blast
  qed
  have d: "priority t'' = ''medium''"
    if "map_of kvs ''priority'' = None" and "from_dict L now (JObj kvs) = (ms, Inr (Some t''))"
  proof -
    from that(2) have "from_dict_try L now (JObj kvs) = Inr t''"
      by (auto simp: from_dict_def split: sum.splits if_splits)
    then obtain ti0 de0 re0 t0 where
      "init_task ti0 de0 None (dict_get kvs ''priority'' (JStr ''medium'')) re0 None now = Inr t0"
      and "priority t'' = priority t0"
      by (auto simp: from_dict_try_def split: sum.splits)
    moreover have "dict_get kvs ''priority'' (JStr ''medium'') = JStr ''medium''"
      using that(1) by (simp add: dict_get_def)
    ultimately have "init_priority (JStr ''medium'') = Inr (priority t'')"
      by (simp add: init_task_priority_of)
    then show ?thesis by (simp add: init_priority_def lower_def lower_char_def)
  qed
  from a b c d show ?thesis by blast
qed

theorem init_task_priority_witness:
  "(\<exists>t. init_task (JStr ''Buy milk'') (JStr '' 2 litres'') None (JStr ''urgent'') (JBool False)
          None noon = Inr t \<and> priority t = ''medium'') \<and>
   (\<exists>t. init_task (JStr ''Buy milk'') (JStr '' 2 litres'') None (JStr []) (JBool False)
          None noon = Inr t \<and> priority t = ''medium'') \<and>
   (\<exists>t. init_task (JStr ''Buy milk'') (JStr '' 2 litres'') None JNull (JBool False)
          None noon = Inr t \<and> priority t = ''medium'') \<and>
   (\<exists>t. init_task (JStr ''Buy milk'') (JStr '' 2 litres'') None (JStr ''HIGH'') (JBool False)
          None noon = Inr t \<and> priority t = ''high'') \<and>
   init_task (JStr ''Buy milk'') (JStr '' 2 litres'') None (JInt 5) (JBool False) None noon
     = Inl AttributeError \<and>
   priority task_milk = ''high''"
proof -
  have s: "strip ''Buy milk'' \<noteq> []" by (simp add: strip_def isspace_def)
  have l: "lower ''urgent'' = ''urgent''" "lower ''HIGH'' = ''high''"
    by (simp_all add: string_defs)
  note w = init_task_priority [where ti = "''Buy milk''" and de = "'' 2 litres''" and dd = None
      and re = "JBool False" and rt = None and now = noon and ti' = "JStr ''Buy milk''"
      and de' = "JStr '' 2 litres''" and t' = task_milk and kvs = "[]" and L = iso8601]
  have 1: "\<exists>t. init_task (JStr ''Buy milk'') (JStr '' 2 litres'') None (JStr ''urgent'') (JBool False)
          None noon = Inr t \<and> priority t = ''medium''"
    using w [where pr = "JStr ''urgent''"] s by (simp add: l)
  have 2: "\<exists>t. init_task (JStr ''Buy milk'') (JStr '' 2 litres'') None (JStr []) (JBool False)
          None noon = Inr t \<and> priority t = ''medium''"
    using w [where pr = "JStr []"] s by (simp add: lower_def)
  have 3: "\<exists>t. init_task (JStr ''Buy milk'') (JStr '' 2 litres'') None JNull (JBool False)
          None noon = Inr t \<and> priority t = ''medium''"
    using w [where pr = JNull] s by simp
  have 4: "\<exists>t. init_task (JStr ''Buy milk'') (JStr '' 2 litres'') None (JStr ''HIGH'') (JBool False)
          None noon = Inr t \<and> priority t = ''high''"
    using w [where pr = "JStr ''HIGH''"] s by (simp add: l)
  have 5: "init_task (JStr ''Buy milk'') (JStr '' 2 litres'') None (JInt 5) (JBool False) None noon
     = Inl AttributeError"
    using w [where pr = "JInt 5"] s by simp
  have 6: "priority task_milk = ''high''"
    using w [where pr = "JStr ''HIGH''"] init_task_milk by (simp add: l)
  from 1 2 3 4 5 6 show ?thesis by blast
qed

subsection \<open>The title invariant\<close>

lemma from_dict_valid:
  assumes "from_dict L now data = (ms, Inr (Some t))"
  shows "task_valid t"
proof -
  from assms have "from_dict_try L now data = Inr t"
    by (auto simp: from_dict_def split: sum.splits if_splits)
  then obtain ti de pr re t0 dd rt c ca where
    t0: "init_task ti de None pr re None now = Inr t0" and
    t: "t = t0\<lparr>due_date := dd, reminder_time := rt, completed := c, created_at := ca\<rparr>"
    by (auto simp: from_dict_try_def split: json.splits sum.splits)
  from t0 have "task_valid t0" by (rule init_task_valid)
  then show ?thesis by (simp add: t task_valid_def)
qed

lemma task_valid_title_ok: "task_valid t \<Longrightarrow> title_ok t"
  by (simp add: task_valid_def title_ok_def)

lemma toggle_valid: "task_valid (toggle t) = task_valid t"
  by (simp add: toggle_def task_valid_def)

lemma load_loop_valid:
  "load_loop L now ds acc out = (out', Inr ts) \<Longrightarrow> \<forall>t \<in> set acc. task_valid t \<Longrightarrow>
     \<forall>t \<in> set ts. task_valid t"
proof (induction ds arbitrary: acc out)
  case Nil
  then show ?case by simp
next
  case (Cons d ds)
  obtain ms r where fd: "from_dict L now d = (ms, r)" by (cases "from_dict L now d")
  show ?case
  proof (cases r)
    case (Inl e)
    with Cons.prems fd show ?thesis by simp
  next
    case (Inr r')
    show ?thesis
    proof (cases r')
      case None
      with Cons.prems fd Inr have "load_loop L now ds acc (out @ ms) = (out', Inr ts)" by simp
      then show ?thesis using Cons.prems(2) by (rule Cons.IH)
    next
      case (Some t)
      with Cons.prems fd Inr have l: "load_loop L now ds (acc @ [t]) (out @ ms) = (out', Inr ts)"
        by simp
      from fd Inr Some have "task_valid t" by (auto intro: from_dict_valid)
      with Cons.prems(2) have "\<forall>u \<in> set (acc @ [t]). task_valid u" by simp
      with l show ?thesis by (rule Cons.IH)
    qed
  qed
qed

lemma load_tasks_titles_ok: "titles_ok s \<Longrightarrow> titles_ok (load_tasks L now s)"
  unfolding titles_ok_def load_tasks_def
  by (auto simp: tasks_save_tasks split: option.splits file_content.splits sum.splits prod.splits
      dest!: load_loop_valid intro: task_valid_title_ok)

lemma add_task_titles_ok: "titles_ok s \<Longrightarrow> title_ok t \<Longrightarrow> titles_ok (fst (add_task L s t))"
  by (simp add: titles_ok_def add_task_def tasks_save_tasks)

lemma remove_task_titles_ok: "titles_ok s \<Longrightarrow> titles_ok (fst (remove_task L s i))"
  by (auto simp: titles_ok_def remove_task_def tasks_save_tasks del_at_def
      dest: in_set_takeD in_set_dropD)

lemma toggle_title_ok: "title_ok (toggle t) = title_ok t"
  by (simp add: toggle_def title_ok_def)

lemma toggle_task_completion_titles_ok:
  "titles_ok s \<Longrightarrow> titles_ok (fst (toggle_task_completion L s i))"
  by (auto simp: titles_ok_def toggle_task_completion_def tasks_save_tasks toggle_title_ok
      dest!: set_update_subset_insert [THEN subsetD])

lemma init_manager_titles_ok: "titles_ok (init_manager L now f)"
proof -
  have "titles_ok \<lparr>tasks = [], tasks_json = f, running = False, stdout = []\<rparr>"
    by (simp add: titles_ok_def)
  then have "titles_ok (load_tasks L now \<lparr>tasks = [], tasks_json = f, running = False, stdout = []\<rparr>)"
    by (rule load_tasks_titles_ok)
  then show ?thesis by (simp add: init_manager_def titles_ok_def)
qed

text \<open>
  C8. A task built by the constructor or by \<^verbatim>\<open>from_dict\<close> has a title that is not
  empty after trimming; a title that is empty or only whitespace makes the constructor
  raise \<^verbatim>\<open>ValueError\<close>, so that no task is built; and when every task of the store
  has such a title, so has every task of the store after \<^verbatim>\<open>add_task\<close> (of a task
  with such a title), \<^verbatim>\<open>remove_task\<close>, \<^verbatim>\<open>toggle_task_completion\<close>,
  \<^verbatim>\<open>load_tasks\<close>, \<^verbatim>\<open>check_reminders\<close> and \<^verbatim>\<open>stop\<close>, as has every task of a
  new manager.
\<close>

theorem title_invariant:
  "(init_task ti de dd pr re rt now = Inr t \<longrightarrow> strip (title t) \<noteq> []) \<and>
   (from_dict L now data = (ms, Inr (Some t')) \<longrightarrow> strip (title t') \<noteq> []) \<and>
   (strip s = [] \<longrightarrow> init_task (JStr s) de dd pr re rt now = Inl ValueError) \<and>
   titles_ok (init_manager L now f) \<and>
   (titles_ok st \<longrightarrow>
      (title_ok u \<longrightarrow> titles_ok (fst (add_task L st u))) \<and>
      titles_ok (fst (remove_task L st i)) \<and>
      titles_ok (fst (toggle_task_completion L st i)) \<and>
      titles_ok (load_tasks L now st) \<and>
      titles_ok (check_reminders L now st) \<and>
      titles_ok (stop L st))"
proof -
  have a: "init_task ti de dd pr re rt now = Inr t \<longrightarrow> strip (title t) \<noteq> []"
    using init_task_valid [of ti de dd pr re rt now t] by (simp add: task_valid_def)
  have b: "from_dict L now data = (ms, Inr (Some t')) \<longrightarrow> strip (title t') \<noteq> []"
    using from_dict_valid [of L now data ms t'] by (simp add: task_valid_def)
  have c: "strip s = [] \<longrightarrow> init_task (JStr s) de dd pr re rt now = Inl ValueError"
    by (simp add: init_task_def)
  have d: "titles_ok st \<Longrightarrow> titles_ok (check_reminders L now st)"
    by (simp add: titles_ok_def check_reminders_def split: prod.splits option.splits)
  have e: "titles_ok st \<Longrightarrow> titles_ok (stop L st)"
    by (simp add: titles_ok_def stop_def tasks_save_tasks)
  show ?thesis
    using a b c d e init_manager_titles_ok [of L now f] add_task_titles_ok [of st u L]
      remove_task_titles_ok [of st L i] toggle_task_completion_titles_ok [of st L i]
      load_tasks_titles_ok [of st L now]
    by blast
qed

theorem title_invariant_witness:
  "strip (title task_milk) \<noteq> [] \<and>
   strip (title task_call) \<noteq> [] \<and>
   init_task (JStr ''   '') (JStr '' 2 litres'') None (JStr ''HIGH'') (JBool False) None noon
     = Inl ValueError \<and>
   titles_ok (fst (add_task iso8601 two_tasks task_milk)) \<and>
   titles_ok (fst (remove_task iso8601 two_tasks 0)) \<and>
   titles_ok (fst (toggle_task_completion iso8601 two_tasks 0)) \<and>
   titles_ok (load_tasks iso8601 noon two_tasks)"
proof -
  have h3: "strip ''   '' = []"
    by (simp add: strip_def isspace_def)
  have h4: "titles_ok two_tasks"
    by (simp add: titles_ok_def tasks_two_tasks task_valid_samples task_valid_title_ok)
  have h5: "title_ok task_milk"
    by (simp add: task_valid_samples task_valid_title_ok)
  show ?thesis
    using title_invariant [of "JStr ''Buy milk''" "JStr '' 2 litres''" None "JStr ''HIGH''"
      "JBool False" None noon task_milk iso8601 rec_call "[]" task_call "''   ''"
      None two_tasks task_milk 0] init_task_milk from_dict_rec_call [of noon] h3 h4 h5
    by simp
qed

subsection \<open>Removing a task\<close>

lemma del_at_length: "i < length xs \<Longrightarrow> length (del_at i xs) = length xs - 1"
  by (simp add: del_at_def)

lemma del_at_before: "j < i \<Longrightarrow> i < length xs \<Longrightarrow> del_at i xs ! j = xs ! j"
  by (simp add: del_at_def nth_append)

lemma del_at_after:
  "i \<le> j \<Longrightarrow> Suc j < length xs \<Longrightarrow> del_at i xs ! j = xs ! Suc j"
  by (simp add: del_at_def nth_append min_def)

text \<open>
  C4. With an index \<open>i\<close> in range, \<^verbatim>\<open>remove_task(i)\<close> returns true, and the list
  that \<^verbatim>\<open>get_tasks()\<close> returns afterwards is one shorter: the entries before position
  \<open>i\<close> stay where they were and every later entry moves down by one, so that exactly
  the entry of position \<open>i\<close> is gone and the order of the others is kept. With any
  other index it returns false and the manager (store, file and output) is unchanged.
\<close>

theorem remove_task_spec:
  "(0 \<le> i \<and> i < int (length (tasks s)) \<longrightarrow>
      snd (remove_task L s i) \<and>
      length (get_tasks (fst (remove_task L s i)) True) = length (tasks s) - 1 \<and>
      get_tasks (fst (remove_task L s i)) True
        = take (nat i) (tasks s) @ drop (nat i + 1) (tasks s) \<and>
      (\<forall>j < nat i. get_tasks (fst (remove_task L s i)) True ! j = tasks s ! j) \<and>
      (\<forall>j. nat i \<le> j \<and> j + 1 < length (tasks s) \<longrightarrow>
         get_tasks (fst (remove_task L s i)) True ! j = tasks s ! (j + 1))) \<and>
   (\<not> (0 \<le> i \<and> i < int (length (tasks s))) \<longrightarrow> remove_task L s i = (s, False))"
proof (rule conjI; rule impI)
  assume r: "0 \<le> i \<and> i < int (length (tasks s))"
  then have n: "nat i < length (tasks s)" by auto
  have g: "get_tasks (fst (remove_task L s i)) True = del_at (nat i) (tasks s)"
    using r by (simp add: remove_task_def get_tasks_def tasks_save_tasks)
  have "snd (remove_task L s i)" using r by (simp add: remove_task_def)
  moreover have "length (del_at (nat i) (tasks s)) = length (tasks s) - 1"
    using n by (rule del_at_length)
  moreover have "del_at (nat i) (tasks s) = take (nat i) (tasks s) @ drop (nat i + 1) (tasks s)"
    by (simp add: del_at_def)
  moreover have "\<forall>j < nat i. del_at (nat i) (tasks s) ! j = tasks s ! j"
    using n by (simp add: del_at_before)
  moreover have "\<forall>j. nat i \<le> j \<and> j + 1 < length (tasks s) \<longrightarrow>
      del_at (nat i) (tasks s) ! j = tasks s ! (j + 1)"
    by (simp add: del_at_after)
  ultimately show "snd (remove_task L s i) \<and>
      length (get_tasks (fst (remove_task L s i)) True) = length (tasks s) - 1 \<and>
      get_tasks (fst (remove_task L s i)) True
        = take (nat i) (tasks s) @ drop (nat i + 1) (tasks s) \<and>
      (\<forall>j < nat i. get_tasks (fst (remove_task L s i)) True ! j = tasks s ! j) \<and>
      (\<forall>j. nat i \<le> j \<and> j + 1 < length (tasks s) \<longrightarrow>
         get_tasks (fst (remove_task L s i)) True ! j = tasks s ! (j + 1))"
    unfolding g by blast
next
  assume "\<not> (0 \<le> i \<and> i < int (length (tasks s)))"
  then show "remove_task L s i = (s, False)" by (simp add: remove_task_def)
qed

theorem remove_task_spec_witness:
  "snd (remove_task iso8601 two_tasks 0) \<and>
   get_tasks (fst (remove_task iso8601 two_tasks 0)) True = [task_call] \<and>
   remove_task iso8601 two_tasks 2 = (two_tasks, False) \<and>
   remove_task iso8601 two_tasks (- 1) = (two_tasks, False)"
  using remove_task_spec [of 0 two_tasks iso8601] remove_task_spec [of 2 two_tasks iso8601]
    remove_task_spec [of "- 1" two_tasks iso8601]
  by (simp add: tasks_two_tasks)

subsection \<open>Toggling completion\<close>

lemma toggle_toggle: "toggle (toggle t) = t\<lparr>completed := JBool (truthy (completed t))\<rparr>"
  by (simp add: toggle_def)

lemma toggle_tasks:
  "0 \<le> i \<Longrightarrow> i < int (length (tasks s)) \<Longrightarrow>
     tasks (fst (toggle_task_completion L s i)) = (tasks s)[nat i := toggle (tasks s ! nat i)] \<and>
     snd (toggle_task_completion L s i)"
  by (simp add: toggle_task_completion_def tasks_save_tasks)

text \<open>
  C5. With an index \<open>i\<close> in range, \<^verbatim>\<open>toggle_task_completion(i)\<close> returns true both
  times it is applied; the first call changes the task at position \<open>i\<close> in its field
  \<open>completed\<close> only, to the negation of its truth value, and changes no other task;
  after the second call the task counts as completed exactly when it did at the start,
  all its other fields and all other tasks being as they were; and when \<open>completed\<close>
  was a boolean, as in every task the program builds or toggles, the store is the
  original one.
\<close>

theorem toggle_twice:
  assumes "0 \<le> i" and "i < int (length (tasks s))"
  shows "snd (toggle_task_completion L s i) \<and>
         snd (toggle_task_completion L (fst (toggle_task_completion L s i)) i) \<and>
         tasks (fst (toggle_task_completion L s i))
           = (tasks s)[nat i := (tasks s ! nat i)\<lparr>completed := JBool (\<not> is_completed (tasks s ! nat i))\<rparr>] \<and>
         tasks (fst (toggle_task_completion L (fst (toggle_task_completion L s i)) i))
           = (tasks s)[nat i := (tasks s ! nat i)\<lparr>completed := JBool (is_completed (tasks s ! nat i))\<rparr>] \<and>
         is_completed (tasks (fst (toggle_task_completion L (fst (toggle_task_completion L s i)) i)) ! nat i)
           = is_completed (tasks s ! nat i) \<and>
         ((\<exists>b. completed (tasks s ! nat i) = JBool b) \<longrightarrow>
            tasks (fst (toggle_task_completion L (fst (toggle_task_completion L s i)) i)) = tasks s)"
proof -
  let ?s1 = "fst (toggle_task_completion L s i)"
  let ?s2 = "fst (toggle_task_completion L ?s1 i)"
  let ?t = "tasks s ! nat i"
  from assms have n: "nat i < length (tasks s)" by auto
  have t1: "tasks ?s1 = (tasks s)[nat i := toggle ?t]" and r1: "snd (toggle_task_completion L s i)"
    using toggle_tasks [OF assms, of L] by simp_all
  have len: "i < int (length (tasks ?s1))" using assms t1 by simp
  have t2: "tasks ?s2 = (tasks ?s1)[nat i := toggle (tasks ?s1 ! nat i)]"
    and r2: "snd (toggle_task_completion L ?s1 i)"
    using toggle_tasks [OF assms(1) len, of L] by simp_all
  have t2': "tasks ?s2 = (tasks s)[nat i := ?t\<lparr>completed := JBool (truthy (completed ?t))\<rparr>]"
    using n by (simp add: t2 t1 toggle_toggle)
  have a: "tasks ?s1 = (tasks s)[nat i := ?t\<lparr>completed := JBool (\<not> is_completed ?t)\<rparr>]"
    by (simp add: t1 toggle_def is_completed_def)
  have b: "tasks ?s2 = (tasks s)[nat i := ?t\<lparr>completed := JBool (is_completed ?t)\<rparr>]"
    by (simp add: t2' is_completed_def)
  have c: "is_completed (tasks ?s2 ! nat i) = is_completed ?t"
    using n by (simp add: b) (simp add: is_completed_def)
  have d: "(\<exists>b. completed ?t = JBool b) \<longrightarrow> tasks ?s2 = tasks s"
  proof
    assume "\<exists>b. completed ?t = JBool b"
    then obtain b where "completed ?t = JBool b" ..
    then have "?t\<lparr>completed := JBool (is_completed ?t)\<rparr> = ?t"
      by (simp add: is_completed_def)
    then show "tasks ?s2 = tasks s" by (simp add: b)
  qed
  from r1 r2 a b c d show ?thesis by blast
qed

theorem toggle_twice_witness:
  "tasks (fst (toggle_task_completion iso8601 two_tasks 0))
     = [task_milk\<lparr>completed := JBool True\<rparr>, task_call] \<and>
   tasks (fst (toggle_task_completion iso8601
            (fst (toggle_task_completion iso8601 two_tasks 0)) 0)) = [task_milk, task_call]"
proof -
  have c: "completed task_milk = JBool False" by (simp add: task_milk_def)
  have "(0::int) \<le> 0" and "0 < int (length (tasks two_tasks))"
    by (simp_all add: tasks_two_tasks)
  from toggle_twice [OF this, of iso8601] show ?thesis
    by (simp add: tasks_two_tasks is_completed_def c)
qed

subsection \<open>The reminder check\<close>












subsection \<open>Every change is written to the file\<close>

lemma save_tasks_file:
  "write_file L (JArr (map (to_dict L) (tasks s))) = Written \<Longrightarrow>
     tasks_json (save_tasks L s) = Some (Json (JArr (map (to_dict L) (tasks (save_tasks L s)))))"
  by (simp add: save_tasks_def)

text \<open>
  C9, as the claim states it, fails where the write fails: on a full disk
  \<^verbatim>\<open>add_task\<close> returns true and the store holds the new task, but
  \<^verbatim>\<open>tasks.json\<close>, truncated by \<^verbatim>\<open>open\<close>, is empty and not the serialization of
  the store.
\<close>

theorem add_task_unsaved:
  "snd (add_task full_disk two_tasks task_milk) \<and>
   tasks (fst (add_task full_disk two_tasks task_milk)) = [task_milk, task_call, task_milk] \<and>
   tasks_json (fst (add_task full_disk two_tasks task_milk)) = Some (Garbage []) \<and>
   tasks_json (fst (add_task full_disk two_tasks task_milk))
     \<noteq> Some (Json (JArr (map (to_dict full_disk)
                               (tasks (fst (add_task full_disk two_tasks task_milk))))))"
  by (simp add: add_task_def save_tasks_def full_disk_sel tasks_two_tasks)

text \<open>
  C9, amended. \<^verbatim>\<open>add_task\<close>, \<^verbatim>\<open>remove_task\<close> with an index in range and
  \<^verbatim>\<open>toggle_task_completion\<close> with an index in range change the store, return true,
  and write before they return: when the write of the changed sequence succeeds, the
  file \<^verbatim>\<open>tasks.json\<close> holds, when the operation returns, the serialization of the
  whole sequence of the store, record by record in its order.
\<close>

theorem mutations_persist:
  "snd (add_task L s t) \<and>
   tasks (fst (add_task L s t)) = tasks s @ [t] \<and>
   (write_file L (JArr (map (to_dict L) (tasks s @ [t]))) = Written \<longrightarrow>
      tasks_json (fst (add_task L s t))
        = Some (Json (JArr (map (to_dict L) (tasks (fst (add_task L s t))))))) \<and>
   (0 \<le> i \<and> i < int (length (tasks s)) \<longrightarrow>
      snd (remove_task L s i) \<and>
      tasks (fst (remove_task L s i)) = take (nat i) (tasks s) @ drop (nat i + 1) (tasks s) \<and>
      (write_file L (JArr (map (to_dict L)
           (take (nat i) (tasks s) @ drop (nat i + 1) (tasks s)))) = Written \<longrightarrow>
         tasks_json (fst (remove_task L s i))
           = Some (Json (JArr (map (to_dict L) (tasks (fst (remove_task L s i))))))) \<and>
      snd (toggle_task_completion L s i) \<and>
      tasks (fst (toggle_task_completion L s i))
        = (tasks s)[nat i := toggle (tasks s ! nat i)] \<and>
      (write_file L (JArr (map (to_dict L)
           ((tasks s)[nat i := toggle (tasks s ! nat i)]))) = Written \<longrightarrow>
         tasks_json (fst (toggle_task_completion L s i))
           = Some (Json (JArr (map (to_dict L) (tasks (fst (toggle_task_completion L s i))))))))"
proof -
  have a: "snd (add_task L s t) \<and> tasks (fst (add_task L s t)) = tasks s @ [t]"
    by (simp add: add_task_def tasks_save_tasks)
  have a': "tasks_json (fst (add_task L s t))
        = Some (Json (JArr (map (to_dict L) (tasks (fst (add_task L s t))))))"
    if "write_file L (JArr (map (to_dict L) (tasks s @ [t]))) = Written"
    using that by (simp add: add_task_def save_tasks_file)
  have r: "snd (remove_task L s i) \<and>
      tasks (fst (remove_task L s i)) = take (nat i) (tasks s) @ drop (nat i + 1) (tasks s)"
    if "0 \<le> i \<and> i < int (length (tasks s))"
    using that by (simp add: remove_task_def tasks_save_tasks del_at_def)
  have r': "tasks_json (fst (remove_task L s i))
           = Some (Json (JArr (map (to_dict L) (tasks (fst (remove_task L s i))))))"
    if "0 \<le> i \<and> i < int (length (tasks s))"
      and "write_file L (JArr (map (to_dict L)
           (take (nat i) (tasks s) @ drop (nat i + 1) (tasks s)))) = Written"
    using that by (simp add: remove_task_def save_tasks_file del_at_def)
  have g: "snd (toggle_task_completion L s i) \<and>
      tasks (fst (toggle_task_completion L s i)) = (tasks s)[nat i := toggle (tasks s ! nat i)]"
    if "0 \<le> i \<and> i < int (length (tasks s))"
    using that by (simp add: toggle_task_completion_def tasks_save_tasks)
  have g': "tasks_json (fst (toggle_task_completion L s i))
           = Some (Json (JArr (map (to_dict L) (tasks (fst (toggle_task_completion L s i))))))"
    if "0 \<le> i \<and> i < int (length (tasks s))"
      and "write_file L (JArr (map (to_dict L)
           ((tasks s)[nat i := toggle (tasks s ! nat i)]))) = Written"
    using that by (simp add: toggle_task_completion_def save_tasks_file)
  from a a' r r' g g' show ?thesis by blast
qed

theorem mutations_persist_witness:
  "tasks_json (fst (add_task iso8601 two_tasks task_milk))
     = Some (Json (JArr [rec_milk, rec_call, rec_milk])) \<and>
   tasks_json (fst (remove_task iso8601 two_tasks 0)) = Some (Json (JArr [rec_call])) \<and>
   tasks_json (fst (toggle_task_completion iso8601 two_tasks 0))
     = Some (Json (JArr [to_dict iso8601 (toggle task_milk), rec_call]))"
proof -
  have r: "(0::int) \<le> 0 \<and> 0 < int (length (tasks two_tasks))"
    by (simp add: tasks_two_tasks)
  have w: "\<And>v. write_file iso8601 v = Written" by (simp add: iso8601_sel)
  from mutations_persist [of iso8601 two_tasks task_milk 0] r w
  have "tasks_json (fst (add_task iso8601 two_tasks task_milk))
          = Some (Json (JArr (map (to_dict iso8601) (tasks two_tasks @ [task_milk])))) \<and>
        tasks_json (fst (remove_task iso8601 two_tasks 0))
          = Some (Json (JArr (map (to_dict iso8601)
              (take (nat 0) (tasks two_tasks) @ drop (nat 0 + 1) (tasks two_tasks))))) \<and>
        tasks_json (fst (toggle_task_completion iso8601 two_tasks 0))
          = Some (Json (JArr (map (to_dict iso8601)
              ((tasks two_tasks)[nat 0 := toggle (tasks two_tasks ! nat 0)]))))"
    by metis
  then show ?thesis
    by (simp add: tasks_two_tasks to_dict_task_milk to_dict_task_call)
qed

subsection \<open>A task added is a task loaded\<close>

text \<open>
  A record written by \<^verbatim>\<open>to_dict\<close> has a string or \<^verbatim>\<open>null\<close> wherever
  \<^verbatim>\<open>from_dict\<close> calls a string method, so reading it back raises nothing but the
  exceptions that \<^verbatim>\<open>from_dict\<close> catches.
\<close>

lemma from_dict_to_dict_returns: "\<exists>ms r. from_dict L now (to_dict L u) = (ms, Inr r)"
proof (cases "from_dict_try L now (to_dict L u)")
  case (Inr t)
  then show ?thesis by (simp add: from_dict_def)
next
  case (Inl e)
  then have "caught e"
    by (cases "due_date u"; cases "reminder_time u")
      (auto simp: from_dict_try_def to_dict_def dict_item_def dict_get_def init_task_def
        init_priority_def opt_date_def py_fromisoformat_def iso_or_null_def
        split: if_splits sum.splits option.splits)
  with Inl show ?thesis by (simp add: from_dict_def)
qed

lemma load_loop_snoc:
  "load_loop L now (ds @ [d]) acc out =
     (case load_loop L now ds acc out of
        (out', Inl e) \<Rightarrow> (out', Inl e)
      | (out', Inr ts) \<Rightarrow> load_loop L now [d] ts out')"
proof (induction ds arbitrary: acc out)
  case Nil
  show ?case by simp
next
  case (Cons x xs)
  show ?case
    by (cases "from_dict L now x") (auto simp: Cons.IH split: sum.splits option.splits)
qed

lemma load_loop_to_dict_returns:
  "\<exists>out' ts. load_loop L now (map (to_dict L) us) acc out = (out', Inr ts)"
proof (induction us arbitrary: acc out)
  case Nil
  show ?case by simp
next
  case (Cons u us)
  obtain ms r where "from_dict L now (to_dict L u) = (ms, Inr r)"
    using from_dict_to_dict_returns by blast
  then show ?case using Cons.IH by (cases r) simp_all
qed

lemma load_loop_last:
  assumes "task_valid t" and "dates_roundtrip L t"
  shows "\<exists>out' ts. load_loop L now (map (to_dict L) (us @ [t])) acc out = (out', Inr (ts @ [t]))"
proof -
  obtain out' ts where "load_loop L now (map (to_dict L) us) acc out = (out', Inr ts)"
    using load_loop_to_dict_returns by blast
  then have "load_loop L now (map (to_dict L) (us @ [t])) acc out = (out', Inr (ts @ [t]))"
    using assms by (simp add: load_loop_snoc from_dict_to_dict)
  then show ?thesis by blast
qed

text \<open>
  C3, as the claim states it, fails where the write of \<^verbatim>\<open>add_task\<close> fails: on a
  full disk \<^verbatim>\<open>add_task\<close> of a valid task into an empty store returns true, the file
  is left truncated, and a new manager that loads it has an empty store.
\<close>

theorem add_then_load_loses_task:
  "task_valid task_milk \<and> dates_roundtrip full_disk task_milk \<and>
   snd (add_task full_disk empty_manager task_milk) \<and>
   tasks_json (fst (add_task full_disk empty_manager task_milk)) = Some (Garbage []) \<and>
   tasks (init_manager full_disk later
            (tasks_json (fst (add_task full_disk empty_manager task_milk)))) = []"
proof -
  have d: "dates_roundtrip full_disk task_milk"
    by (simp add: dates_roundtrip_def iso_roundtrip_def task_milk_def full_disk_sel
        iso_print_noon iso_read_noon)
  have f: "tasks_json (fst (add_task full_disk empty_manager task_milk)) = Some (Garbage [])"
    by (simp add: add_task_def save_tasks_def full_disk_sel empty_manager_def)
  have "tasks (init_manager full_disk later (Some (Garbage []))) = []"
    by (simp add: init_manager_def load_tasks_def tasks_save_tasks)
  with d f task_valid_samples(1) show ?thesis by (simp add: add_task_def)
qed

text \<open>
  C3, amended. A valid task (its title and description are stripped, the title is not
  empty, its priority is one of the three, as the constructor leaves them) whose
  timestamps the library reads back from what it wrote is reproduced by
  \<^verbatim>\<open>from_dict\<close> from its \<^verbatim>\<open>to_dict\<close> record, in every field. After \<^verbatim>\<open>add_task\<close>
  of such a task, when the write of \<^verbatim>\<open>add_task\<close> succeeds, loading the file
  (\<^verbatim>\<open>load_tasks\<close>, or a new manager on the same file) gives a store whose last task
  is that task; and when the tasks already in the store are valid in the same sense,
  loading gives back the whole store with the task appended.
\<close>

theorem add_then_load_roundtrip:
  assumes "task_valid t" and "dates_roundtrip L t"
    and "write_file L (JArr (map (to_dict L) (tasks s @ [t]))) = Written"
  shows "from_dict L now (to_dict L t) = ([], Inr (Some t)) \<and>
         snd (add_task L s t) \<and>
         (\<exists>ts. tasks (load_tasks L now (fst (add_task L s t))) = ts @ [t]) \<and>
         (\<exists>ts. tasks (init_manager L now (tasks_json (fst (add_task L s t)))) = ts @ [t]) \<and>
         ((\<forall>u \<in> set (tasks s). task_valid u \<and> dates_roundtrip L u) \<longrightarrow>
            tasks (load_tasks L now (fst (add_task L s t))) = tasks s @ [t] \<and>
            tasks (init_manager L now (tasks_json (fst (add_task L s t)))) = tasks s @ [t])"
proof -
  let ?s1 = "fst (add_task L s t)"
  have f: "tasks_json ?s1 = Some (Json (JArr (map (to_dict L) (tasks s @ [t]))))"
    using assms(3) by (simp add: add_task_def save_tasks_def)
  have a: "from_dict L now (to_dict L t) = ([], Inr (Some t))"
    using assms(1,2) by (rule from_dict_to_dict)
  have b: "\<exists>ts. tasks (load_tasks L now ?s1) = ts @ [t]"
  proof -
    obtain out' ts where
      "load_loop L now (map (to_dict L) (tasks s @ [t])) [] (stdout ?s1) = (out', Inr (ts @ [t]))"
      using load_loop_last [OF assms(1,2)] by blast
    then have "tasks (load_tasks L now ?s1) = ts @ [t]"
      by (simp add: load_tasks_def f)
    then show ?thesis by blast
  qed
  have c: "\<exists>ts. tasks (init_manager L now (tasks_json ?s1)) = ts @ [t]"
  proof -
    obtain out' ts where
      "load_loop L now (map (to_dict L) (tasks s @ [t])) [] [] = (out', Inr (ts @ [t]))"
      using load_loop_last [OF assms(1,2)] by blast
    then have "tasks (init_manager L now (tasks_json ?s1)) = ts @ [t]"
      by (simp add: init_manager_def load_tasks_def f)
    then show ?thesis by blast
  qed
  have d: "tasks (load_tasks L now ?s1) = tasks s @ [t] \<and>
      tasks (init_manager L now (tasks_json ?s1)) = tasks s @ [t]"
    if "\<forall>u \<in> set (tasks s). task_valid u \<and> dates_roundtrip L u"
  proof -
    from that assms(1,2)
    have "\<forall>u \<in> set (tasks s @ [t]). task_valid u \<and> dates_roundtrip L u"
      by simp
    then have "\<And>out. load_loop L now (map (to_dict L) (tasks s @ [t])) [] out
        = (out, Inr (tasks s @ [t]))"
      using load_loop_to_dict [of "tasks s @ [t]" L now "[]"] by simp
    then show ?thesis by (simp add: init_manager_def load_tasks_def f)
  qed
  have e: "snd (add_task L s t)" by (simp add: add_task_def)
  from a b c d e show ?thesis by blast
qed

theorem add_then_load_roundtrip_witness:
  "from_dict iso8601 later rec_milk = ([], Inr (Some task_milk)) \<and>
   tasks (load_tasks iso8601 later (fst (add_task iso8601 two_tasks task_milk)))
     = [task_milk, task_call, task_milk] \<and>
   tasks (init_manager iso8601 later (tasks_json (fst (add_task iso8601 two_tasks task_milk))))
     = [task_milk, task_call, task_milk]"
proof -
  have "\<forall>u \<in> set (tasks two_tasks). task_valid u \<and> dates_roundtrip iso8601 u"
    by (simp add: tasks_two_tasks task_valid_samples dates_roundtrip_samples)
  with add_then_load_roundtrip [OF task_valid_samples(1) dates_roundtrip_samples(1)
      iso8601_sel(3), where s = two_tasks and now = later]
  show ?thesis by (simp add: to_dict_task_milk tasks_two_tasks)
qed

subsection \<open>Records with missing fields\<close>

lemma map_of_without:
  "map_of (without k kvs) k' = (if k' = k then None else map_of kvs k')"
  by (induction kvs) (auto simp: without_def)

lemma dict_get_without:
  "dict_get (without k kvs) k' d = (if k' = k then d else dict_get kvs k' d)"
  by (simp add: dict_get_def map_of_without)

lemma dict_item_without:
  "dict_item (without k kvs) k' = (if k' = k then Inl (KeyError k) else dict_item kvs k')"
  by (simp add: dict_item_def map_of_without)

lemma opt_date_without:
  "opt_date L (without k kvs) k' old = (if k' = k then Inr old else opt_date L kvs k' old)"
  by (simp add: opt_date_def dict_get_without)

text \<open>What a successful run of the body of \<^verbatim>\<open>from_dict\<close> has computed.\<close>

lemma init_task_InrD:
  assumes "init_task ti de dd pr re rt now = Inr t"
  obtains s d p where "ti = JStr s" and "strip s \<noteq> []" and "de = JStr d"
    and "init_priority pr = Inr p"
    and "t = \<lparr>title = strip s, description = strip d, due_date = dd, priority = p,
              reminder = truthy re, reminder_time = rt, completed = JBool False,
              created_at = now\<rparr>"
  using assms by (auto simp: init_task_def split: if_splits json.splits sum.splits)

lemma init_task_InrI:
  "strip s \<noteq> [] \<Longrightarrow> init_priority pr = Inr p \<Longrightarrow>
     init_task (JStr s) (JStr d) dd pr re rt now =
       Inr \<lparr>title = strip s, description = strip d, due_date = dd, priority = p,
            reminder = truthy re, reminder_time = rt, completed = JBool False,
            created_at = now\<rparr>"
  by (auto simp: init_task_def strip_def)

lemma from_dict_try_InrD:
  assumes "from_dict_try L now (JObj kvs) = Inr t"
  obtains s d p dd rt c ca where
    "dict_item kvs ''title'' = Inr (JStr s)" and "strip s \<noteq> []" and
    "dict_get kvs ''description'' (JStr []) = JStr d" and
    "init_priority (dict_get kvs ''priority'' (JStr ''medium'')) = Inr p" and
    "opt_date L kvs ''due_date'' None = Inr dd" and
    "opt_date L kvs ''reminder_time'' None = Inr rt" and
    "dict_item kvs ''created_at'' = Inr c" and "py_fromisoformat L c = Inr ca" and
    "t = \<lparr>title = strip s, description = strip d, due_date = dd, priority = p,
          reminder = truthy (dict_get kvs ''reminder'' (JBool False)), reminder_time = rt,
          completed = dict_get kvs ''completed'' (JBool False), created_at = ca\<rparr>"
proof -
  from assms obtain ti t0 dd rt c ca where
    ti: "dict_item kvs ''title'' = Inr ti" and
    t0: "init_task ti (dict_get kvs ''description'' (JStr []))
           None (dict_get kvs ''priority'' (JStr ''medium''))
           (dict_get kvs ''reminder'' (JBool False)) None now = Inr t0" and
    dd: "opt_date L kvs ''due_date'' (due_date t0) = Inr dd" and
    rt: "opt_date L kvs ''reminder_time'' (reminder_time t0) = Inr rt" and
    c: "dict_item kvs ''created_at'' = Inr c" and ca: "py_fromisoformat L c = Inr ca" and
    t: "t = t0\<lparr>due_date := dd, reminder_time := rt,
                completed := dict_get kvs ''completed'' (JBool False), created_at := ca\<rparr>"
    by (auto simp: from_dict_try_def split: sum.splits)
  from t0 show ?thesis
  proof (rule init_task_InrD)
    fix s d p
    assume "ti = JStr s" "strip s \<noteq> []" "dict_get kvs ''description'' (JStr []) = JStr d"
      "init_priority (dict_get kvs ''priority'' (JStr ''medium'')) = Inr p"
      "t0 = \<lparr>title = strip s, description = strip d, due_date = None, priority = p,
              reminder = truthy (dict_get kvs ''reminder'' (JBool False)),
              reminder_time = None, completed = JBool False, created_at = now\<rparr>"
    with ti dd rt c ca t show ?thesis by (intro that [of s d p dd rt c ca]) simp_all
  qed
qed

lemma from_dict_try_InrI:
  assumes "dict_item kvs ''title'' = Inr (JStr s)" and "strip s \<noteq> []" and
    "dict_get kvs ''description'' (JStr []) = JStr d" and
    "init_priority (dict_get kvs ''priority'' (JStr ''medium'')) = Inr p" and
    "opt_date L kvs ''due_date'' None = Inr dd" and
    "opt_date L kvs ''reminder_time'' None = Inr rt" and
    "dict_item kvs ''created_at'' = Inr c" and "py_fromisoformat L c = Inr ca"
  shows "from_dict_try L now (JObj kvs) =
     Inr \<lparr>title = strip s, description = strip d, due_date = dd, priority = p,
          reminder = truthy (dict_get kvs ''reminder'' (JBool False)), reminder_time = rt,
          completed = dict_get kvs ''completed'' (JBool False), created_at = ca\<rparr>"
  using assms by (simp add: from_dict_try_def init_task_InrI)

lemma strip_Nil: "strip [] = []"
  by (simp add: strip_def)

lemma init_priority_medium: "init_priority (JStr ''medium'') = Inr ''medium''"
  by (simp add: init_priority_def lower_def lower_char_def)

lemma from_dict_Some_iff:
  "from_dict L now data = (ms, Inr (Some t)) \<longleftrightarrow> ms = [] \<and> from_dict_try L now data = Inr t"
  by (auto simp: from_dict_def split: sum.splits)

lemma map_of_only:
  "map_of (filter (\<lambda>kv. fst kv = a \<or> fst kv = b) kvs) k
     = (if k = a \<or> k = b then map_of kvs k else None)"
  by (induction kvs) auto

text \<open>
  C10. Take a record from which \<^verbatim>\<open>from_dict\<close> builds a task. The same record
  without one of the fields \<^verbatim>\<open>description\<close>, \<^verbatim>\<open>priority\<close>, \<^verbatim>\<open>reminder\<close>,
  \<^verbatim>\<open>completed\<close>, \<^verbatim>\<open>due_date\<close>, \<^verbatim>\<open>reminder_time\<close> still gives a task: the same
  one, with the default in that field (the empty string, medium, false, false, no due
  date, no reminder time); with only \<^verbatim>\<open>title\<close> and \<^verbatim>\<open>created_at\<close> left it gives
  the task with all six defaults. Without \<^verbatim>\<open>title\<close> or without \<^verbatim>\<open>created_at\<close>
  it gives no task: \<^verbatim>\<open>from_dict\<close> prints the \<^verbatim>\<open>KeyError\<close> and returns
  \<^verbatim>\<open>None\<close>, and the record is skipped.
\<close>

theorem from_dict_missing_fields:
  assumes "from_dict L now (JObj kvs) = (ms, Inr (Some t))"
  shows
    "from_dict L now (JObj (without ''description'' kvs))
       = ([], Inr (Some (t\<lparr>description := []\<rparr>))) \<and>
     from_dict L now (JObj (without ''priority'' kvs))
       = ([], Inr (Some (t\<lparr>priority := ''medium''\<rparr>))) \<and>
     from_dict L now (JObj (without ''reminder'' kvs))
       = ([], Inr (Some (t\<lparr>reminder := False\<rparr>))) \<and>
     from_dict L now (JObj (without ''completed'' kvs))
       = ([], Inr (Some (t\<lparr>completed := JBool False\<rparr>))) \<and>
     from_dict L now (JObj (without ''due_date'' kvs))
       = ([], Inr (Some (t\<lparr>due_date := None\<rparr>))) \<and>
     from_dict L now (JObj (without ''reminder_time'' kvs))
       = ([], Inr (Some (t\<lparr>reminder_time := None\<rparr>))) \<and>
     from_dict L now (JObj (filter (\<lambda>kv. fst kv \<in> set [''title'', ''created_at'']) kvs))
       = ([], Inr (Some \<lparr>title = title t, description = [], due_date = None,
                           priority = ''medium'', reminder = False, reminder_time = None,
                           completed = JBool False, created_at = created_at t\<rparr>)) \<and>
     from_dict L now (JObj (without ''title'' kvs))
       = ([ErrorLoadingTask (KeyError ''title'')], Inr None) \<and>
     from_dict L now (JObj (without ''created_at'' kvs))
       = ([ErrorLoadingTask (KeyError ''created_at'')], Inr None)"
proof -
  from assms have "from_dict_try L now (JObj kvs) = Inr t"
    by (simp add: from_dict_Some_iff)
  then show ?thesis
  proof (rule from_dict_try_InrD)
    fix s d p dd rt c ca
    assume ti: "dict_item kvs ''title'' = Inr (JStr s)" and s: "strip s \<noteq> []"
      and de: "dict_get kvs ''description'' (JStr []) = JStr d"
      and pr: "init_priority (dict_get kvs ''priority'' (JStr ''medium'')) = Inr p"
      and dd: "opt_date L kvs ''due_date'' None = Inr dd"
      and rt: "opt_date L kvs ''reminder_time'' None = Inr rt"
      and c: "dict_item kvs ''created_at'' = Inr c" and ca: "py_fromisoformat L c = Inr ca"
      and t: "t = \<lparr>title = strip s, description = strip d, due_date = dd, priority = p,
          reminder = truthy (dict_get kvs ''reminder'' (JBool False)), reminder_time = rt,
          completed = dict_get kvs ''completed'' (JBool False), created_at = ca\<rparr>"
    note given = ti s de pr dd rt c ca
    have 1: "from_dict_try L now (JObj (without ''description'' kvs)) = Inr (t\<lparr>description := []\<rparr>)"
      using given
      by (subst from_dict_try_InrI [where s = s and d = "[]" and p = p and dd = dd and rt = rt
            and c = c and ca = ca])
        (simp_all add: dict_item_without dict_get_without opt_date_without t strip_Nil)
    have 2: "from_dict_try L now (JObj (without ''priority'' kvs)) = Inr (t\<lparr>priority := ''medium''\<rparr>)"
      using given
      by (subst from_dict_try_InrI [where s = s and d = d and p = "''medium''" and dd = dd
            and rt = rt and c = c and ca = ca])
        (simp_all add: dict_item_without dict_get_without opt_date_without t
          init_priority_medium)
    have 3: "from_dict_try L now (JObj (without ''reminder'' kvs)) = Inr (t\<lparr>reminder := False\<rparr>)"
      using given
      by (subst from_dict_try_InrI [where s = s and d = d and p = p and dd = dd
            and rt = rt and c = c and ca = ca])
        (simp_all add: dict_item_without dict_get_without opt_date_without t)
    have 4: "from_dict_try L now (JObj (without ''completed'' kvs))
        = Inr (t\<lparr>completed := JBool False\<rparr>)"
      using given
      by (subst from_dict_try_InrI [where s = s and d = d and p = p and dd = dd
            and rt = rt and c = c and ca = ca])
        (simp_all add: dict_item_without dict_get_without opt_date_without t)
    have 5: "from_dict_try L now (JObj (without ''due_date'' kvs)) = Inr (t\<lparr>due_date := None\<rparr>)"
      using given
      by (subst from_dict_try_InrI [where s = s and d = d and p = p and dd = None
            and rt = rt and c = c and ca = ca])
        (simp_all add: dict_item_without dict_get_without opt_date_without t)
    have 6: "from_dict_try L now (JObj (without ''reminder_time'' kvs))
        = Inr (t\<lparr>reminder_time := None\<rparr>)"
      using given
      by (subst from_dict_try_InrI [where s = s and d = d and p = p and dd = dd
            and rt = None and c = c and ca = ca])
        (simp_all add: dict_item_without dict_get_without opt_date_without t)
    let ?only = "filter (\<lambda>kv. fst kv \<in> set [''title'', ''created_at'']) kvs"
    have 7: "from_dict_try L now (JObj ?only)
        = Inr \<lparr>title = title t, description = [], due_date = None,
               priority = ''medium'', reminder = False, reminder_time = None,
               completed = JBool False, created_at = created_at t\<rparr>"
      using given
      by (subst from_dict_try_InrI [where s = s and d = "[]" and p = "''medium''" and dd = None
            and rt = None and c = c and ca = ca])
        (simp_all add: dict_item_def dict_get_def opt_date_def map_of_only t strip_Nil
          init_priority_medium)
    have 8: "from_dict_try L now (JObj (without ''title'' kvs)) = Inl (KeyError ''title'')"
      by (simp add: from_dict_try_def dict_item_without)
    have 9: "from_dict_try L now (JObj (without ''created_at'' kvs)) = Inl (KeyError ''created_at'')"
      using given
      by (simp add: from_dict_try_def dict_item_without dict_get_without opt_date_without
          init_task_InrI)
    show ?thesis
      by (simp add: from_dict_def 1 2 3 4 5 6 7 [simplified] 8 9)
  qed
qed

theorem from_dict_missing_fields_witness:
  "from_dict iso8601 later (JObj (without ''priority'' (without ''due_date''
       [(''title'', JStr ''Call Sam''), (''description'', JStr []),
        (''due_date'', JStr ''2024-06-01T08:30:15.250000''), (''priority'', JStr ''low''),
        (''reminder'', JBool True), (''reminder_time'', JStr ''2024-05-17T12:00:00''),
        (''completed'', JBool True), (''created_at'', JStr ''2024-05-17T12:00:00'')])))
     = ([], Inr (Some (task_call\<lparr>due_date := None, priority := ''medium''\<rparr>))) \<and>
   from_dict iso8601 later (JObj [(''title'', JStr ''Call Sam''),
        (''created_at'', JStr ''2024-05-17T12:00:00'')])
     = ([], Inr (Some \<lparr>title = ''Call Sam'', description = [], due_date = None,
                         priority = ''medium'', reminder = False, reminder_time = None,
                         completed = JBool False, created_at = noon\<rparr>)) \<and>
   from_dict iso8601 later (JObj [(''title'', JStr ''Call Sam''), (''description'', JStr []),
        (''due_date'', JStr ''2024-06-01T08:30:15.250000''), (''priority'', JStr ''low''),
        (''reminder'', JBool True), (''reminder_time'', JStr ''2024-05-17T12:00:00''),
        (''completed'', JBool True)])
     = ([ErrorLoadingTask (KeyError ''created_at'')], Inr None)"
proof -
  let ?kvs = "[(''title'', JStr ''Call Sam''), (''description'', JStr []),
        (''due_date'', JStr ''2024-06-01T08:30:15.250000''), (''priority'', JStr ''low''),
        (''reminder'', JBool True), (''reminder_time'', JStr ''2024-05-17T12:00:00''),
        (''completed'', JBool True), (''created_at'', JStr ''2024-05-17T12:00:00'')]"
  have a: "from_dict iso8601 later (JObj ?kvs) = ([], Inr (Some task_call))"
    using from_dict_rec_call [of later] by (simp add: rec_call_def)
  note w = from_dict_missing_fields [OF a]
  from w have b: "from_dict iso8601 later (JObj (without ''due_date'' ?kvs))
      = ([], Inr (Some (task_call\<lparr>due_date := None\<rparr>)))"
    by blast
  from from_dict_missing_fields [OF b]
  have c: "from_dict iso8601 later (JObj (without ''priority'' (without ''due_date'' ?kvs)))
      = ([], Inr (Some (task_call\<lparr>due_date := None, priority := ''medium''\<rparr>)))"
    by blast
  from w have d: "from_dict iso8601 later
      (JObj (filter (\<lambda>kv. fst kv \<in> set [''title'', ''created_at'']) ?kvs))
      = ([], Inr (Some \<lparr>title = title task_call, description = [], due_date = None,
                         priority = ''medium'', reminder = False, reminder_time = None,
                         completed = JBool False, created_at = created_at task_call\<rparr>))"
    by blast
  from w have e: "from_dict iso8601 later (JObj (without ''created_at'' ?kvs))
      = ([ErrorLoadingTask (KeyError ''created_at'')], Inr None)"
    by blast
  have f: "title task_call = ''Call Sam''" "created_at task_call = noon"
    by (simp_all add: task_call_def)
  from c d e show ?thesis by (simp add: without_def f)
qed

subsection \<open>A file that cannot be read as an array\<close>

lemma from_dict_JStr: "from_dict L now (JStr k) = ([], Inl TypeError)"
  by (simp add: from_dict_def from_dict_try_def)

lemma load_tasks_not_array:
  assumes "tasks_json s = Some (Json data)" and "\<forall>xs. data \<noteq> JArr xs"
    and "data \<noteq> JObj []" and "data \<noteq> JStr []"
  shows "tasks (load_tasks L now s) = [] \<and> tasks_json (load_tasks L now s) = tasks_json s \<and>
         stdout (load_tasks L now s) = stdout s @ [ErrorLoadingTasks TypeError]"
proof (cases data)
  case (JArr xs)
  with assms(2) show ?thesis by simp
next
  case (JObj kvs)
  with assms(1,3) show ?thesis
    by (cases kvs) (simp_all add: load_tasks_def from_dict_JStr)
next
  case (JStr str)
  with assms(1,4) show ?thesis
    by (cases str) (simp_all add: load_tasks_def from_dict_JStr)
qed (use assms(1) in \<open>simp_all add: load_tasks_def\<close>)

text \<open>
  C1, as the claim states it, fails: a new manager that finds text in \<^verbatim>\<open>tasks.json\<close>
  that is not JSON overwrites the file, so its content is not left intact.
\<close>

theorem load_tasks_overwrites_garbage:
  "tasks_json (init_manager iso8601 noon (Some (Garbage ''{oops'')))
     \<noteq> Some (Garbage ''{oops'')"
  by (simp add: init_manager_def load_tasks_def save_tasks_def iso8601_sel)

text \<open>
  C1, amended. When the constructor runs \<^verbatim>\<open>load_tasks\<close> and the file is present but
  malformed, the error is reported and the store is empty afterwards, in each of
  these cases: the content is text that \<^verbatim>\<open>json.load\<close> rejects as invalid JSON; the
  content cannot be read at all (\<^verbatim>\<open>open\<close> or \<^verbatim>\<open>json.load\<close> raises another
  exception, as for bytes that are not UTF-8); the content is a JSON number, boolean,
  \<^verbatim>\<open>null\<close>, non-empty object or non-empty string. The file is left intact in the
  second and the third case. In the first it is written anew from the empty store,
  and holds the empty array when that write succeeds.
\<close>

theorem load_tasks_malformed:
  "(tasks (init_manager L now (Some (Garbage g))) = [] \<and>
    (\<exists>ms. stdout (init_manager L now (Some (Garbage g))) = InvalidJSON # ms) \<and>
    (write_file L (JArr []) = Written \<longrightarrow>
       stdout (init_manager L now (Some (Garbage g))) = [InvalidJSON] \<and>
       tasks_json (init_manager L now (Some (Garbage g))) = Some (Json (JArr [])))) \<and>
   (tasks (init_manager L now (Some (Unreadable e b))) = [] \<and>
    stdout (init_manager L now (Some (Unreadable e b))) = [ErrorLoadingTasks e] \<and>
    tasks_json (init_manager L now (Some (Unreadable e b))) = Some (Unreadable e b)) \<and>
   ((\<forall>xs. data \<noteq> JArr xs) \<and> data \<noteq> JObj [] \<and> data \<noteq> JStr [] \<longrightarrow>
      tasks (init_manager L now (Some (Json data))) = [] \<and>
      stdout (init_manager L now (Some (Json data))) = [ErrorLoadingTasks TypeError] \<and>
      tasks_json (init_manager L now (Some (Json data))) = Some (Json data))"
proof -
  have a: "tasks (init_manager L now (Some (Garbage g))) = [] \<and>
    (\<exists>ms. stdout (init_manager L now (Some (Garbage g))) = InvalidJSON # ms)"
    by (simp add: init_manager_def load_tasks_def save_tasks_def Let_def
        split: write_outcome.splits)
  have a': "stdout (init_manager L now (Some (Garbage g))) = [InvalidJSON] \<and>
       tasks_json (init_manager L now (Some (Garbage g))) = Some (Json (JArr []))"
    if "write_file L (JArr []) = Written"
    using that by (simp add: init_manager_def load_tasks_def save_tasks_def)
  have b: "tasks (init_manager L now (Some (Unreadable e b))) = [] \<and>
    stdout (init_manager L now (Some (Unreadable e b))) = [ErrorLoadingTasks e] \<and>
    tasks_json (init_manager L now (Some (Unreadable e b))) = Some (Unreadable e b)"
    by (simp add: init_manager_def load_tasks_def)
  have c: "tasks (init_manager L now (Some (Json data))) = [] \<and>
      stdout (init_manager L now (Some (Json data))) = [ErrorLoadingTasks TypeError] \<and>
      tasks_json (init_manager L now (Some (Json data))) = Some (Json data)"
    if "(\<forall>xs. data \<noteq> JArr xs) \<and> data \<noteq> JObj [] \<and> data \<noteq> JStr []"
    using that
      load_tasks_not_array [of "\<lparr>tasks = [], tasks_json = Some (Json data), running = False,
        stdout = []\<rparr>" data L now]
    by (simp add: init_manager_def)
  from a a' b c show ?thesis by blast
qed

theorem load_tasks_malformed_witness:
  "tasks (init_manager iso8601 noon (Some (Garbage ''[{''))) = [] \<and>
   stdout (init_manager iso8601 noon (Some (Garbage ''[{''))) = [InvalidJSON] \<and>
   tasks_json (init_manager iso8601 noon (Some (Garbage ''[{''))) = Some (Json (JArr [])) \<and>
   tasks (init_manager iso8601 noon (Some (Json (JInt 7)))) = [] \<and>
   stdout (init_manager iso8601 noon (Some (Json (JInt 7)))) = [ErrorLoadingTasks TypeError] \<and>
   tasks_json (init_manager iso8601 noon (Some (Json (JInt 7)))) = Some (Json (JInt 7))"
  using load_tasks_malformed [of iso8601 noon "''[{''" UnicodeDecodeError "[]" "JInt 7"]
  by (simp add: iso8601_sel)

subsection \<open>Records that cannot be deserialized\<close>

text \<open>
  When no record of the list makes \<^verbatim>\<open>from_dict\<close> raise, the loop of
  \<^verbatim>\<open>load_tasks\<close> appends the tasks of the records that give one, in order, prints
  the message of each record that gives \<^verbatim>\<open>None\<close>, and skips it.
\<close>

lemma load_loop_returns:
  assumes "\<forall>d \<in> set ds. \<exists>ms r. from_dict L now d = (ms, Inr r)"
  shows "load_loop L now ds acc out =
           (out @ concat (map (\<lambda>d. fst (from_dict L now d)) ds),
            Inr (acc @ concat (map (\<lambda>d. case snd (from_dict L now d) of
                                          Inr (Some t) \<Rightarrow> [t] | _ \<Rightarrow> []) ds)))"
  using assms
proof (induction ds arbitrary: acc out)
  case Nil
  show ?case by simp
next
  case (Cons d ds)
  from Cons.prems obtain ms r where d: "from_dict L now d = (ms, Inr r)" by auto
  from Cons.prems have "\<forall>d \<in> set ds. \<exists>ms r. from_dict L now d = (ms, Inr r)" by simp
  note IH = Cons.IH [OF this]
  show ?case by (cases r) (simp_all add: d IH)
qed

lemma load_tasks_skips_rejected:
  assumes "from_dict L now a = ([], Inr (Some ta))" and "from_dict L now b = (mb, Inr None)"
    and "from_dict L now c = ([], Inr (Some tc))"
  shows "tasks (init_manager L now (Some (Json (JArr [a, b, c])))) = [ta, tc] \<and>
         tasks (init_manager L now (Some (Json (JArr [b, a, c])))) = [ta, tc] \<and>
         tasks (init_manager L now (Some (Json (JArr [a, c, b])))) = [ta, tc] \<and>
         stdout (init_manager L now (Some (Json (JArr [a, b, c])))) = mb"
  using assms by (simp add: init_manager_def load_tasks_def)

lemma load_tasks_skips_undated:
  "tasks (init_manager iso8601 noon (Some (Json (JArr [rec_milk, rec_undated, rec_call]))))
     = [task_milk, task_call] \<and>
   stdout (init_manager iso8601 noon (Some (Json (JArr [rec_milk, rec_undated, rec_call]))))
     = [ErrorLoadingTask (KeyError ''created_at'')]"
  using load_tasks_skips_rejected [OF from_dict_rec_milk from_dict_rec_undated from_dict_rec_call]
  by simp

text \<open>
  C2 at a file of three records, the second with \<^verbatim>\<open>null\<close> as its description:
  the first and the third record are valid, \<^verbatim>\<open>from_dict\<close> raises
  \<^verbatim>\<open>AttributeError\<close> on the second, which its handler does not catch, and the
  handler of \<^verbatim>\<open>load_tasks\<close> empties the store. The claim has the two valid
  records in the store.
\<close>

theorem load_tasks_aborts_on_null_description:
  "from_dict iso8601 noon rec_milk = ([], Inr (Some task_milk)) \<and>
   from_dict iso8601 noon rec_call = ([], Inr (Some task_call)) \<and>
   from_dict iso8601 noon rec_null_description = ([], Inl AttributeError) \<and>
   tasks (init_manager iso8601 noon
            (Some (Json (JArr [rec_milk, rec_null_description, rec_call])))) = [] \<and>
   stdout (init_manager iso8601 noon
            (Some (Json (JArr [rec_milk, rec_null_description, rec_call]))))
     = [ErrorLoadingTasks AttributeError]"
  by (simp add: init_manager_def load_tasks_def from_dict_rec_milk from_dict_rec_call
      from_dict_rec_null_description)

end
